theory Spec2Isabelle
  imports Main "HOL-Library.Word"
begin

unbundle bit_operations_syntax

section \<open>The W32 process helpers of \<^verbatim>\<open>common/exechelp-w32.c\<close>\<close>

text \<open>
  The functions of \<^verbatim>\<open>exechelp-w32.c\<close> are embedded as HOL functions.  Every call into the
  operating system or into a library outside the file is answered by a field of the record
  \<open>w32\<close>, so that each branch the C code takes on such an answer is a branch of its model.
  A function that changes a \<^verbatim>\<open>struct gnupg_process\<close> returns the changed record; a function
  whose calls matter returns the list of calls it has made, in order.
\<close>

subsection \<open>Error codes, handles and the operating system\<close>

text \<open>
  \<^verbatim>\<open>gpg_err_code_t\<close>.  A \<^verbatim>\<open>gpg_error_t\<close> is an error code tagged with an error source, and
  it is zero exactly when its code is \<^verbatim>\<open>GPG_ERR_NO_ERROR\<close>; the model keeps the code.
  \<open>GPG_ERR_SYSTEM e\<close> stands for the code \<^verbatim>\<open>gpg_err_code_from_syserror\<close> derives from the
  value \<open>e\<close> of \<^verbatim>\<open>errno\<close>; libgpg-error never maps a system error to the success code.
\<close>

datatype gpg_err_code =
    GPG_ERR_NO_ERROR
  | GPG_ERR_GENERAL
  | GPG_ERR_INV_VALUE
  | GPG_ERR_TIMEOUT
  | GPG_ERR_UNFINISHED
  | GPG_ERR_UNKNOWN_COMMAND
  | GPG_ERR_SYSTEM nat

text \<open>A \<^verbatim>\<open>HANDLE\<close>, read as the integer the source casts it to.\<close>

type_synonym handle = int

definition INVALID_HANDLE_VALUE :: handle where
  "INVALID_HANDLE_VALUE = -1"

datatype wait_code = WAIT_OBJECT_0 | WAIT_TIMEOUT | WAIT_FAILED | WAIT_unexpected int

datatype std = Std_input | Std_output | Std_error

text \<open>An \<^verbatim>\<open>estream_t\<close> that wraps a handle, opened with a mode string.\<close>

datatype estream = Estream handle string

record startupinfo =
  hStdInput :: handle
  hStdOutput :: handle
  hStdError :: handle

text \<open>
  The answers of the environment.  \<open>GetExitCodeProcess\<close> is \<open>None\<close> when the call fails
  and the exit code it stores otherwise; \<open>CreatePipe\<close> gives the read and the write end of
  the pipe made for a standard stream; \<open>CreateFileW_nul\<close> is the handle \<^verbatim>\<open>CreateFileW\<close>
  returns for the device \<^verbatim>\<open>nul\<close> (the invalid handle when it fails); \<open>CreateProcessW\<close> gives
  the process and the thread handle, from the program, the command line, the startup
  information and whether \<^verbatim>\<open>DETACHED_PROCESS\<close> is set; \<open>xtrymalloc\<close> and \<open>xtrycalloc\<close> say
  whether an allocation of that many bytes succeeds.
\<close>

record w32 =
  xtrymalloc :: "nat \<Rightarrow> bool"
  xtrycalloc :: "nat \<Rightarrow> bool"
  errno :: nat
  TerminateProcess :: "handle \<Rightarrow> 32 word \<Rightarrow> bool"
  GetExitCodeProcess :: "handle \<Rightarrow> 32 word option"
  WaitForSingleObject :: "handle \<Rightarrow> bool \<Rightarrow> wait_code"
  WaitForMultipleObjects :: "handle list \<Rightarrow> bool \<Rightarrow> wait_code"
  open_osfhandle :: "handle \<Rightarrow> string \<Rightarrow> int"
  es_sysopen :: "handle \<Rightarrow> string \<Rightarrow> estream option"
  CreatePipe :: "std \<Rightarrow> (handle \<times> handle) option"
  SetHandleInformation :: "handle \<Rightarrow> bool"
  CreateFileW_nul :: "std \<Rightarrow> handle"
  GetStdHandle :: "std \<Rightarrow> handle"
  utf8_to_wchar :: "string \<Rightarrow> bool"
  CreateProcessW :: "string \<Rightarrow> string \<Rightarrow> startupinfo \<Rightarrow> bool \<Rightarrow> (handle \<times> handle) option"

definition gpg_err_code_from_syserror :: "w32 \<Rightarrow> gpg_err_code" where
  "gpg_err_code_from_syserror os = GPG_ERR_SYSTEM (errno os)"

text \<open>The calls and diagnostics a function leaves behind, in the order it makes them.\<close>

datatype event =
    Call_pre_syscall
  | Call_post_syscall
  | Call_TerminateProcess handle "32 word"
  | Call_WaitForSingleObject handle bool
  | Call_WaitForMultipleObjects "handle list" bool
  | Call_GetExitCodeProcess handle
  | Call_xfree_process
  | Log_wait_failed
  | Log_unexpected_code int
  | Log_exit_code_failed int
  | Log_error_running string int

subsection \<open>\<^verbatim>\<open>build_w32_commandline\<close>\<close>

text \<open>
  The allocated buffer is a list of bytes, \<open>None\<close> where nothing has been stored yet.  A
  store through \<^verbatim>\<open>*p++ = c\<close> at an offset outside the allocation is \<open>None\<close>: the C program
  has no defined behaviour from there on.
\<close>

type_synonym buffer = "char option list"

definition NUL :: char where "NUL = CHR 0x00"
definition dquote :: char where "dquote = CHR 0x22"
definition space :: char where "space = CHR 0x20"

text \<open>The second argument of \<^verbatim>\<open>strpbrk\<close>: space, tab, newline, vertical tab, form feed, quote.\<close>

definition special :: string where
  "special = [CHR 0x20, CHR 0x09, CHR 0x0A, CHR 0x0B, CHR 0x0C, CHR 0x22]"

definition store :: "buffer \<Rightarrow> nat \<Rightarrow> char \<Rightarrow> buffer option" where
  "store buf p c = (if p < length buf then Some (buf[p := Some c]) else None)"

text \<open>\<^verbatim>\<open>stpcpy\<close> copies the string and its terminator and returns the terminator's place.\<close>

fun stpcpy :: "buffer \<Rightarrow> nat \<Rightarrow> string \<Rightarrow> (buffer \<times> nat) option" where
  "stpcpy buf p [] = Option.bind (store buf p NUL) (\<lambda>b. Some (b, p))"
| "stpcpy buf p (c # s) = Option.bind (store buf p c) (\<lambda>b. stpcpy b (Suc p) s)"

text \<open>\<^verbatim>\<open>strpbrk\<close> returns the rest of the string from its first byte in \<open>accept\<close>.\<close>

definition strpbrk :: "string \<Rightarrow> string \<Rightarrow> string option" where
  "strpbrk s accept =
     (case dropWhile (\<lambda>c. c \<notin> set accept) s of [] \<Rightarrow> None | r # rs \<Rightarrow> Some (r # rs))"

text \<open>The loop of lines 202--207: every byte is stored, a double quote twice.\<close>

fun copy_doubling :: "buffer \<Rightarrow> nat \<Rightarrow> string \<Rightarrow> (buffer \<times> nat) option" where
  "copy_doubling buf p [] = Some (buf, p)"
| "copy_doubling buf p (c # s) =
     Option.bind (store buf p c) (\<lambda>b.
       if c = dquote
       then Option.bind (store b (Suc p) c) (\<lambda>b'. copy_doubling b' (Suc (Suc p)) s)
       else copy_doubling b (Suc p) s)"

definition build_w32_commandline_copy ::
  "buffer \<Rightarrow> nat \<Rightarrow> string \<Rightarrow> (buffer \<times> nat) option" where
  "build_w32_commandline_copy buffer p string =
     (if string = [] then stpcpy buffer p [dquote, dquote]
      else if strpbrk string special \<noteq> None then
        Option.bind (stpcpy buffer p [dquote]) (\<lambda>(b1, p1).
        Option.bind (copy_doubling b1 p1 string) (\<lambda>(b2, p2).
        Option.bind (store b2 p2 dquote) (\<lambda>b3.
        Option.bind (store b3 (Suc p2) NUL) (\<lambda>b4. Some (b4, Suc p2)))))
      else stpcpy buffer p string)"

text \<open>
  The byte count \<^verbatim>\<open>n\<close> is a C \<^verbatim>\<open>int\<close>: a 32-bit word, to which the lengths (of type
  \<^verbatim>\<open>size_t\<close>) are added modulo \<open>2 ^ 32\<close>.  Lines 230--233 and 236--239 add, for one string,
  its length, 1 + 2, and 1 for each double quote in it.
\<close>

fun count_inner_quotes :: "32 word \<Rightarrow> string \<Rightarrow> 32 word" where
  "count_inner_quotes n [] = n"
| "count_inner_quotes n (c # s) = count_inner_quotes (if c = dquote then n + 1 else n) s"

definition count_token :: "32 word \<Rightarrow> string \<Rightarrow> 32 word" where
  "count_token n s = count_inner_quotes (n + (of_nat (length s) + 1 + 2)) s"

fun count_argv :: "32 word \<Rightarrow> string list \<Rightarrow> 32 word" where
  "count_argv n [] = n"
| "count_argv n (s # argv) = count_argv (count_token n s) argv"

definition cmdline_size :: "string \<Rightarrow> string list \<Rightarrow> 32 word" where
  "cmdline_size pgm argv = count_argv (count_token 0 pgm) argv + 1"

text \<open>The loop of lines 248--252.\<close>

fun join_argv :: "buffer \<Rightarrow> nat \<Rightarrow> string list \<Rightarrow> (buffer \<times> nat) option" where
  "join_argv buf p [] = Some (buf, p)"
| "join_argv buf p (a # argv) =
     Option.bind (store buf p space) (\<lambda>b.
     Option.bind (build_w32_commandline_copy b (Suc p) a) (\<lambda>(b', p'). join_argv b' p' argv))"

text \<open>
  The builder returns the buffer (\<open>Cmdline\<close>), or the error for a failed allocation, or it
  has stored outside the allocation (\<open>Overrun\<close>).  \<^verbatim>\<open>xtrymalloc (n)\<close> converts \<^verbatim>\<open>n\<close> to
  \<^verbatim>\<open>size_t\<close>; this is \<open>unat n\<close> on the 32-bit target, and on every target when \<^verbatim>\<open>n\<close> is not
  negative.  On a 64-bit target a negative \<^verbatim>\<open>n\<close> asks for more than \<open>unat n\<close> bytes, so a
  buffer that is granted is never smaller than the one of the model.
\<close>

datatype cmdline_result = Cmdline buffer | Error gpg_err_code | Overrun

definition build_w32_commandline :: "w32 \<Rightarrow> string \<Rightarrow> string list \<Rightarrow> cmdline_result" where
  "build_w32_commandline os pgm argv =
     (let n = cmdline_size pgm argv in
      if \<not> xtrymalloc os (unat n) then Error (gpg_err_code_from_syserror os)
      else
        (case Option.bind (build_w32_commandline_copy (replicate (unat n) None) 0 pgm)
                (\<lambda>(b, p). join_argv b p argv) of
           None \<Rightarrow> Overrun
         | Some (buf, p) \<Rightarrow> Cmdline buf))"

text \<open>
  The C string a buffer holds: its bytes up to the first NUL; \<open>None\<close> when a byte that was
  never stored, or the end of the allocation, comes first.
\<close>

fun c_string :: "buffer \<Rightarrow> string option" where
  "c_string [] = None"
| "c_string (None # b) = None"
| "c_string (Some c # b) = (if c = NUL then Some [] else map_option ((#) c) (c_string b))"

subsubsection \<open>The command line as the specification words it\<close>

text \<open>
  A token with none of the six special characters is copied verbatim; another non-empty
  token is wrapped in double quotes, each double quote in it doubled; the empty token is
  two double quotes.  Tokens are joined by single spaces, the program first.
\<close>

definition needs_quoting :: "string \<Rightarrow> bool" where
  "needs_quoting t = list_ex (\<lambda>c. c \<in> set special) t"

definition double_quotes :: "string \<Rightarrow> string" where
  "double_quotes t = concat (map (\<lambda>c. if c = dquote then [dquote, dquote] else [c]) t)"

definition render_token :: "string \<Rightarrow> string" where
  "render_token t =
     (if t = [] then [dquote, dquote]
      else if needs_quoting t then dquote # double_quotes t @ [dquote]
      else t)"

fun join_spaces :: "string list \<Rightarrow> string" where
  "join_spaces [] = []"
| "join_spaces [t] = t"
| "join_spaces (t # ts) = t @ space # join_spaces ts"

definition render_cmdline :: "string \<Rightarrow> string list \<Rightarrow> string" where
  "render_cmdline pgm argv = join_spaces (map render_token (pgm # argv))"

definition render_tail :: "string list \<Rightarrow> string" where
  "render_tail argv = concat (map (\<lambda>a. space # render_token a) argv)"

text \<open>The byte count as a natural number: what \<^verbatim>\<open>n\<close> is as long as it does not wrap.\<close>

definition token_bytes :: "string \<Rightarrow> nat" where
  "token_bytes s = length s + 3 + length (filter (\<lambda>c. c = dquote) s)"

definition cmdline_bytes :: "string \<Rightarrow> string list \<Rightarrow> nat" where
  "cmdline_bytes pgm argv = token_bytes pgm + sum_list (map token_bytes argv) + 1"

subsection \<open>\<^verbatim>\<open>gnupg_wait_processes\<close>\<close>

text \<open>
  The caller passes \<^verbatim>\<open>count\<close> names and \<^verbatim>\<open>count\<close> process handles (as \<^verbatim>\<open>pid_t\<close>), and
  either no array for the exit codes (\<open>None\<close>) or one of \<^verbatim>\<open>count\<close> entries.  The first
  loop (lines 802--811) resets the entries and stops at a pid of \<open>-1\<close>; the second
  (lines 830--854) asks for each exit code.  The result is the error code, the array, and
  the calls and diagnostics made.
\<close>

fun reject_invalid_pids :: "nat \<Rightarrow> int list \<Rightarrow> int list option \<Rightarrow> bool \<times> int list option" where
  "reject_invalid_pids i [] r_exitcodes = (False, r_exitcodes)"
| "reject_invalid_pids i (pid # pids) r_exitcodes =
     (let r = map_option (\<lambda>a. a[i := -1]) r_exitcodes in
      if pid = -1 then (True, r) else reject_invalid_pids (Suc i) pids r)"

text \<open>The body of the second loop (lines 832--853) for the process with index \<open>i\<close>.\<close>

fun record_exit_code ::
  "w32 \<Rightarrow> nat \<Rightarrow> string \<times> int \<Rightarrow> gpg_err_code \<times> int list option \<times> event list
     \<Rightarrow> gpg_err_code \<times> int list option \<times> event list" where
  "record_exit_code os i (name, pid) (ec, r_exitcodes, evs) =
     (case GetExitCodeProcess os pid of
        None \<Rightarrow>
          (GPG_ERR_GENERAL, r_exitcodes, evs @ [Call_GetExitCodeProcess pid, Log_exit_code_failed pid])
      | Some exc \<Rightarrow>
          if exc \<noteq> 0 then
            (case r_exitcodes of
               None \<Rightarrow> (GPG_ERR_GENERAL, None,
                          evs @ [Call_GetExitCodeProcess pid, Log_error_running name (sint exc)])
             | Some a \<Rightarrow> (GPG_ERR_GENERAL, Some (a[i := sint exc]),
                          evs @ [Call_GetExitCodeProcess pid]))
          else (ec, map_option (\<lambda>a. a[i := 0]) r_exitcodes, evs @ [Call_GetExitCodeProcess pid]))"

fun collect_exit_codes ::
  "w32 \<Rightarrow> nat \<Rightarrow> (string \<times> int) list \<Rightarrow> gpg_err_code \<times> int list option \<times> event list
     \<Rightarrow> gpg_err_code \<times> int list option \<times> event list" where
  "collect_exit_codes os i [] acc = acc"
| "collect_exit_codes os i (proc # procs) acc =
     collect_exit_codes os (Suc i) procs (record_exit_code os i proc acc)"

definition gnupg_wait_processes ::
  "w32 \<Rightarrow> string list \<Rightarrow> int list \<Rightarrow> bool \<Rightarrow> int list option
     \<Rightarrow> gpg_err_code \<times> int list option \<times> event list" where
  "gnupg_wait_processes os pgmnames pids hang r_exitcodes =
     (if \<not> xtrycalloc os (length pids) then (gpg_err_code_from_syserror os, r_exitcodes, [])
      else
        case reject_invalid_pids 0 pids r_exitcodes of
          (True, r) \<Rightarrow> (GPG_ERR_INV_VALUE, r, [])
        | (False, r) \<Rightarrow>
            (case WaitForMultipleObjects os pids hang of
               WAIT_TIMEOUT \<Rightarrow> (GPG_ERR_TIMEOUT, r, [Call_WaitForMultipleObjects pids hang])
             | WAIT_FAILED \<Rightarrow>
                 (GPG_ERR_GENERAL, r, [Call_WaitForMultipleObjects pids hang, Log_wait_failed])
             | WAIT_OBJECT_0 \<Rightarrow>
                 collect_exit_codes os 0 (zip pgmnames pids)
                   (GPG_ERR_NO_ERROR, r, [Call_WaitForMultipleObjects pids hang])
             | WAIT_unexpected code \<Rightarrow>
                 (GPG_ERR_GENERAL, r, [Call_WaitForMultipleObjects pids hang, Log_unexpected_code code])))"

subsection \<open>The process object\<close>

text \<open>\<^verbatim>\<open>struct gnupg_process\<close>.\<close>

record gnupg_process =
  pgmname :: string
  terminated :: bool
  flags :: "32 word"
  hProcess :: handle
  hd_in :: handle
  hd_out :: handle
  hd_err :: handle
  exitcode :: int

text \<open>
  \<^verbatim>\<open>gnupg_process_get_fds\<close> and \<^verbatim>\<open>gnupg_process_get_streams\<close>: each boolean says whether the
  result pointer for that stream is non-null, and each result is what was stored through
  it.  The \<^verbatim>\<open>flags\<close> argument is unused by the first and gives \<open>nonblock\<close> (the bit
  \<^verbatim>\<open>GNUPG_PROCESS_STREAM_NONBLOCK\<close>) in the second.
\<close>

definition gnupg_process_get_fds ::
  "w32 \<Rightarrow> gnupg_process \<Rightarrow> bool \<Rightarrow> bool \<Rightarrow> bool
     \<Rightarrow> gpg_err_code \<times> gnupg_process \<times> int option \<times> int option \<times> int option" where
  "gnupg_process_get_fds os process r_fd_in r_fd_out r_fd_err =
     (let fd_in = (if r_fd_in then Some (open_osfhandle os (hd_in process) ''O_APPEND'') else None);
          process = (if r_fd_in then process\<lparr>hd_in := INVALID_HANDLE_VALUE\<rparr> else process);
          fd_out = (if r_fd_out then Some (open_osfhandle os (hd_out process) ''O_RDONLY'') else None);
          process = (if r_fd_out then process\<lparr>hd_out := INVALID_HANDLE_VALUE\<rparr> else process);
          fd_err = (if r_fd_err then Some (open_osfhandle os (hd_err process) ''O_RDONLY'') else None);
          process = (if r_fd_err then process\<lparr>hd_err := INVALID_HANDLE_VALUE\<rparr> else process)
      in (GPG_ERR_NO_ERROR, process, fd_in, fd_out, fd_err))"

definition gnupg_process_get_streams ::
  "w32 \<Rightarrow> gnupg_process \<Rightarrow> bool \<Rightarrow> bool \<Rightarrow> bool \<Rightarrow> bool
     \<Rightarrow> gpg_err_code \<times> gnupg_process \<times> estream option option \<times> estream option option
        \<times> estream option option" where
  "gnupg_process_get_streams os process nonblock r_fp_in r_fp_out r_fp_err =
     (let fp_in = (if r_fp_in
                   then Some (es_sysopen os (hd_in process) (if nonblock then ''w,nonblock'' else ''w''))
                   else None);
          process = (if r_fp_in then process\<lparr>hd_in := INVALID_HANDLE_VALUE\<rparr> else process);
          fp_out = (if r_fp_out
                    then Some (es_sysopen os (hd_out process) (if nonblock then ''r,nonblock'' else ''r''))
                    else None);
          process = (if r_fp_out then process\<lparr>hd_out := INVALID_HANDLE_VALUE\<rparr> else process);
          fp_err = (if r_fp_err
                    then Some (es_sysopen os (hd_err process) (if nonblock then ''r,nonblock'' else ''r''))
                    else None);
          process = (if r_fp_err then process\<lparr>hd_err := INVALID_HANDLE_VALUE\<rparr> else process)
      in (GPG_ERR_NO_ERROR, process, fp_in, fp_out, fp_err))"

text \<open>\<^verbatim>\<open>process_kill\<close> (lines 1595--1605): the error code is set when \<^verbatim>\<open>TerminateProcess\<close>
  returns non-zero, as the source has it.\<close>

definition process_kill :: "w32 \<Rightarrow> gnupg_process \<Rightarrow> 32 word \<Rightarrow> gpg_err_code \<times> event list" where
  "process_kill os process exitcode' =
     (let ec = (if TerminateProcess os (hProcess process) exitcode'
                then gpg_err_code_from_syserror os
                else GPG_ERR_NO_ERROR)
      in (ec, [Call_pre_syscall, Call_TerminateProcess (hProcess process) exitcode', Call_post_syscall]))"

text \<open>
  The requests of \<^verbatim>\<open>gnupg_process_ctl\<close> with their variable arguments: a boolean argument
  says whether that result pointer is non-null.  \<open>reply\<close> is what the request stored
  through its pointers; \<open>R_exitcode None\<close> means that \<^verbatim>\<open>*r_exitcode\<close> was left untouched.
\<close>

datatype request =
    GNUPG_PROCESS_NOP
  | GNUPG_PROCESS_GET_ID bool
  | GNUPG_PROCESS_GET_EXIT_ID
  | GNUPG_PROCESS_GET_P_HANDLE bool
  | GNUPG_PROCESS_GET_HANDLES bool bool bool
  | GNUPG_PROCESS_GET_EXIT_CODE
  | GNUPG_PROCESS_KILL_WITH_EC "32 word"
  | GNUPG_PROCESS_unknown nat

datatype reply =
    No_output
  | R_id int
  | R_exit_status int
  | R_hProcess handle
  | R_handles "handle option" "handle option" "handle option"
  | R_exitcode "32 word option"

fun process_vctl ::
  "w32 \<Rightarrow> gnupg_process \<Rightarrow> request \<Rightarrow> gpg_err_code \<times> gnupg_process \<times> reply \<times> event list" where
  "process_vctl os process GNUPG_PROCESS_NOP = (GPG_ERR_NO_ERROR, process, No_output, [])"
| "process_vctl os process (GNUPG_PROCESS_GET_ID r_id) =
     (if \<not> r_id then (GPG_ERR_INV_VALUE, process, No_output, [])
      else (GPG_ERR_NO_ERROR, process, R_id (hProcess process), []))"
| "process_vctl os process GNUPG_PROCESS_GET_EXIT_ID =
     (if \<not> terminated process then (GPG_ERR_UNFINISHED, process, R_exit_status (-1), [])
      else if hProcess process = INVALID_HANDLE_VALUE
      then (GPG_ERR_NO_ERROR, process, R_exit_status (-1), [])
      else case GetExitCodeProcess os (hProcess process) of
             None \<Rightarrow> (gpg_err_code_from_syserror os, process, R_exit_status (-1),
                       [Call_GetExitCodeProcess (hProcess process)])
           | Some exit_code \<Rightarrow> (GPG_ERR_NO_ERROR, process, R_exit_status (sint exit_code),
                       [Call_GetExitCodeProcess (hProcess process)]))"
| "process_vctl os process (GNUPG_PROCESS_GET_P_HANDLE r_hProcess) =
     (if \<not> r_hProcess then (GPG_ERR_INV_VALUE, process, No_output, [])
      else (GPG_ERR_NO_ERROR, process\<lparr>hProcess := INVALID_HANDLE_VALUE\<rparr>,
            R_hProcess (hProcess process), []))"
| "process_vctl os process (GNUPG_PROCESS_GET_HANDLES r_hd_in r_hd_out r_hd_err) =
     (let out_in = (if r_hd_in then Some (hd_in process) else None);
          process = (if r_hd_in then process\<lparr>hd_in := INVALID_HANDLE_VALUE\<rparr> else process);
          out_out = (if r_hd_out then Some (hd_out process) else None);
          process = (if r_hd_out then process\<lparr>hd_out := INVALID_HANDLE_VALUE\<rparr> else process);
          out_err = (if r_hd_err then Some (hd_err process) else None);
          process = (if r_hd_err then process\<lparr>hd_err := INVALID_HANDLE_VALUE\<rparr> else process)
      in (GPG_ERR_NO_ERROR, process, R_handles out_in out_out out_err, []))"
| "process_vctl os process GNUPG_PROCESS_GET_EXIT_CODE =
     (if \<not> terminated process then (GPG_ERR_UNFINISHED, process, R_exitcode None, [])
      else if hProcess process = INVALID_HANDLE_VALUE
      then (GPG_ERR_NO_ERROR, process, R_exitcode (Some (-1)), [])
      else case GetExitCodeProcess os (hProcess process) of
             None \<Rightarrow> (gpg_err_code_from_syserror os, process, R_exitcode None,
                       [Call_GetExitCodeProcess (hProcess process)])
           | Some exit_code \<Rightarrow> (GPG_ERR_NO_ERROR, process, R_exitcode (Some exit_code),
                       [Call_GetExitCodeProcess (hProcess process)]))"
| "process_vctl os process (GNUPG_PROCESS_KILL_WITH_EC exitcode') =
     (if terminated process then (GPG_ERR_NO_ERROR, process, No_output, [])
      else if hProcess process = INVALID_HANDLE_VALUE
      then (GPG_ERR_NO_ERROR, process, No_output, [])
      else case process_kill os process exitcode' of (ec, evs) \<Rightarrow> (ec, process, No_output, evs))"
| "process_vctl os process (GNUPG_PROCESS_unknown n) =
     (GPG_ERR_UNKNOWN_COMMAND, process, No_output, [])"

definition gnupg_process_ctl ::
  "w32 \<Rightarrow> gnupg_process \<Rightarrow> request \<Rightarrow> gpg_err_code \<times> gnupg_process \<times> reply \<times> event list" where
  "gnupg_process_ctl os process request = process_vctl os process request"

definition gnupg_process_wait ::
  "w32 \<Rightarrow> gnupg_process \<Rightarrow> bool \<Rightarrow> gpg_err_code \<times> gnupg_process \<times> event list" where
  "gnupg_process_wait os process hang =
     (if hProcess process = INVALID_HANDLE_VALUE then (GPG_ERR_NO_ERROR, process, [])
      else
        let evs = [Call_pre_syscall, Call_WaitForSingleObject (hProcess process) hang, Call_post_syscall]
        in case WaitForSingleObject os (hProcess process) hang of
             WAIT_TIMEOUT \<Rightarrow> (GPG_ERR_TIMEOUT, process, evs)
           | WAIT_FAILED \<Rightarrow> (GPG_ERR_GENERAL, process, evs @ [Log_wait_failed])
           | WAIT_OBJECT_0 \<Rightarrow> (GPG_ERR_NO_ERROR, process\<lparr>terminated := True\<rparr>, evs)
           | WAIT_unexpected code \<Rightarrow> (GPG_ERR_GENERAL, process, evs @ [Log_unexpected_code code]))"

definition gnupg_process_terminate ::
  "w32 \<Rightarrow> gnupg_process \<Rightarrow> gpg_err_code \<times> gnupg_process \<times> event list" where
  "gnupg_process_terminate os process =
     (case process_kill os process 1 of (ec, evs) \<Rightarrow> (ec, process, evs))"

text \<open>\<^verbatim>\<open>gnupg_process_release\<close> (lines 1777--1790); \<open>None\<close> is the null pointer.  The test is
  the source's \<^verbatim>\<open>if (process->terminated)\<close>.\<close>

definition gnupg_process_release :: "w32 \<Rightarrow> gnupg_process option \<Rightarrow> event list" where
  "gnupg_process_release os process =
     (case process of
        None \<Rightarrow> []
      | Some p \<Rightarrow>
          if terminated p then
            (case gnupg_process_terminate os p of
               (ec, p1, evs1) \<Rightarrow>
                 (case gnupg_process_wait os p1 True of
                    (ec', p2, evs2) \<Rightarrow> evs1 @ evs2 @ [Call_xfree_process]))
          else [Call_xfree_process])"

subsection \<open>Handing a stream end to the caller\<close>

text \<open>
  \<open>pick which x y z\<close> is the one of three values that belongs to the standard stream
  \<open>which\<close>.  \<open>handed_over os p which p'\<close> says that \<open>p'\<close> is the process object after one of
  \<^verbatim>\<open>gnupg_process_get_fds\<close>, \<^verbatim>\<open>gnupg_process_get_streams\<close> and the request
  \<^verbatim>\<open>GNUPG_PROCESS_GET_HANDLES\<close> was called on \<open>p\<close> with a non-null result pointer for that
  stream.
\<close>

definition pick :: "std \<Rightarrow> 'a \<Rightarrow> 'a \<Rightarrow> 'a \<Rightarrow> 'a" where
  "pick which x y z = (case which of Std_input \<Rightarrow> x | Std_output \<Rightarrow> y | Std_error \<Rightarrow> z)"

definition stream_end :: "std \<Rightarrow> gnupg_process \<Rightarrow> handle" where
  "stream_end which p = pick which (hd_in p) (hd_out p) (hd_err p)"

definition handed_over :: "w32 \<Rightarrow> gnupg_process \<Rightarrow> std \<Rightarrow> gnupg_process \<Rightarrow> bool" where
  "handed_over os p which p' =
     (\<exists>a b c nonblock.
        pick which a b c \<and>
        (p' = fst (snd (gnupg_process_get_fds os p a b c))
         \<or> p' = fst (snd (gnupg_process_get_streams os p nonblock a b c))
         \<or> p' = fst (snd (process_vctl os p (GNUPG_PROCESS_GET_HANDLES a b c)))))"

subsection \<open>\<^verbatim>\<open>gnupg_spawn_process\<close>\<close>

text \<open>
  The launcher is modelled with the list of resources it has created and not yet closed
  (\<open>live\<close>): kernel handles, and streams wrapping one of them.  \<^verbatim>\<open>es_fclose\<close> closes a
  stream together with the handle it wraps.  The local variables of the C function are the
  fields of \<open>spawn_vars\<close>.
\<close>

datatype resource = Kernel_handle handle | Stream estream

definition CloseHandle :: "handle \<Rightarrow> resource list \<Rightarrow> resource list" where
  "CloseHandle h live = removeAll (Kernel_handle h) live"

fun es_fclose :: "estream \<Rightarrow> resource list \<Rightarrow> resource list" where
  "es_fclose (Estream h mode) live =
     removeAll (Stream (Estream h mode)) (removeAll (Kernel_handle h) live)"

definition INHERIT_READ :: "32 word" where "INHERIT_READ = 1"
definition INHERIT_WRITE :: "32 word" where "INHERIT_WRITE = 2"

text \<open>
  The launch flags are declared in \<^verbatim>\<open>exechelp.h\<close>, which is not among the sources; the values
  below are those of GnuPG's header.  Only their being distinct bits matters here.
\<close>

definition GNUPG_SPAWN_NONBLOCK :: "32 word" where "GNUPG_SPAWN_NONBLOCK = 16"
definition GNUPG_SPAWN_RUN_ASFW :: "32 word" where "GNUPG_SPAWN_RUN_ASFW = 64"
definition GNUPG_SPAWN_DETACHED :: "32 word" where "GNUPG_SPAWN_DETACHED = 128"
definition GNUPG_SPAWN_KEEP_STDIN :: "32 word" where "GNUPG_SPAWN_KEEP_STDIN = 256"
definition GNUPG_SPAWN_KEEP_STDOUT :: "32 word" where "GNUPG_SPAWN_KEEP_STDOUT = 512"
definition GNUPG_SPAWN_KEEP_STDERR :: "32 word" where "GNUPG_SPAWN_KEEP_STDERR = 1024"

definition create_inheritable_pipe ::
  "w32 \<Rightarrow> std \<Rightarrow> 32 word \<Rightarrow> resource list \<Rightarrow> (handle \<times> handle) option \<times> resource list" where
  "create_inheritable_pipe os which inherit live =
     (case CreatePipe os which of
        None \<Rightarrow> (None, live)
      | Some (r, w) \<Rightarrow>
          (let live1 = live @ [Kernel_handle r, Kernel_handle w] in
           if inherit AND INHERIT_READ = 0 \<and> \<not> SetHandleInformation os r
           then (None, CloseHandle w (CloseHandle r live1))
           else if inherit AND INHERIT_WRITE = 0 \<and> \<not> SetHandleInformation os w
           then (None, CloseHandle w (CloseHandle r live1))
           else (Some (r, w), live1)))"

definition w32_open_null :: "w32 \<Rightarrow> std \<Rightarrow> resource list \<Rightarrow> handle \<times> resource list" where
  "w32_open_null os which live =
     (let hfile = CreateFileW_nul os which in
      (hfile, if hfile = INVALID_HANDLE_VALUE then live else live @ [Kernel_handle hfile]))"

definition sysopen :: "w32 \<Rightarrow> handle \<Rightarrow> string \<Rightarrow> resource list \<Rightarrow> estream option \<times> resource list" where
  "sysopen os h mode live =
     (case es_sysopen os h mode of
        None \<Rightarrow> (None, live)
      | Some fp \<Rightarrow> (Some fp, live @ [Stream fp]))"

text \<open>\<^verbatim>\<open>if (fp) es_fclose (fp); else if (h != INVALID_HANDLE_VALUE) CloseHandle (h');\<close>\<close>

definition fclose_or_close ::
  "estream option \<Rightarrow> handle \<Rightarrow> handle \<Rightarrow> resource list \<Rightarrow> resource list" where
  "fclose_or_close fp h h' live =
     (case fp of
        Some s \<Rightarrow> es_fclose s live
      | None \<Rightarrow> if h \<noteq> INVALID_HANDLE_VALUE then CloseHandle h' live else live)"

definition close_if_valid :: "handle \<Rightarrow> resource list \<Rightarrow> resource list" where
  "close_if_valid h live = (if h \<noteq> INVALID_HANDLE_VALUE then CloseHandle h live else live)"

record spawn_vars =
  inpipe :: "handle \<times> handle"
  outpipe :: "handle \<times> handle"
  errpipe :: "handle \<times> handle"
  infp :: "estream option"
  outfp :: "estream option"
  errfp :: "estream option"
  nullhd0 :: handle
  nullhd1 :: handle
  nullhd2 :: handle
  live :: "resource list"

definition spawn_vars_init :: spawn_vars where
  "spawn_vars_init =
     \<lparr>inpipe = (INVALID_HANDLE_VALUE, INVALID_HANDLE_VALUE),
      outpipe = (INVALID_HANDLE_VALUE, INVALID_HANDLE_VALUE),
      errpipe = (INVALID_HANDLE_VALUE, INVALID_HANDLE_VALUE),
      infp = None, outfp = None, errfp = None,
      nullhd0 = INVALID_HANDLE_VALUE, nullhd1 = INVALID_HANDLE_VALUE,
      nullhd2 = INVALID_HANDLE_VALUE,
      live = []\<rparr>"

text \<open>Lines 461--483: the pipe for the child's standard input.\<close>

definition spawn_stdin_pipe ::
  "w32 \<Rightarrow> bool \<Rightarrow> bool \<Rightarrow> spawn_vars \<Rightarrow> gpg_err_code option \<times> spawn_vars" where
  "spawn_stdin_pipe os nonblock r_infp v =
     (if \<not> r_infp then (None, v)
      else
        case create_inheritable_pipe os Std_input INHERIT_READ (live v) of
          (None, l) \<Rightarrow> (Some GPG_ERR_GENERAL, v\<lparr>live := l\<rparr>)
        | (Some (r, w), l) \<Rightarrow>
            (case sysopen os w (if nonblock then ''w,nonblock'' else ''w'') l of
               (None, l1) \<Rightarrow>
                 (Some (gpg_err_code_from_syserror os),
                  v\<lparr>live := CloseHandle w (CloseHandle r l1)\<rparr>)
             | (Some fp, l1) \<Rightarrow> (None, v\<lparr>inpipe := (r, w), infp := Some fp, live := l1\<rparr>)))"

text \<open>Lines 485--513: the pipe for the child's standard output.\<close>

definition spawn_stdout_pipe ::
  "w32 \<Rightarrow> bool \<Rightarrow> bool \<Rightarrow> spawn_vars \<Rightarrow> gpg_err_code option \<times> spawn_vars" where
  "spawn_stdout_pipe os nonblock r_outfp v =
     (if \<not> r_outfp then (None, v)
      else
        case create_inheritable_pipe os Std_output INHERIT_WRITE (live v) of
          (None, l) \<Rightarrow> (Some GPG_ERR_GENERAL, v\<lparr>live := l\<rparr>)
        | (Some (r, w), l) \<Rightarrow>
            (case sysopen os r (if nonblock then ''r,nonblock'' else ''r'') l of
               (None, l1) \<Rightarrow>
                 (Some (gpg_err_code_from_syserror os),
                  v\<lparr>live :=
                      close_if_valid (fst (inpipe v))
                        (fclose_or_close (infp v) (snd (inpipe v)) (snd (inpipe v))
                          (CloseHandle w (CloseHandle r l1)))\<rparr>)
             | (Some fp, l1) \<Rightarrow> (None, v\<lparr>outpipe := (r, w), outfp := Some fp, live := l1\<rparr>)))"

text \<open>Lines 515--549: the pipe for the child's standard error.\<close>

definition spawn_stderr_pipe ::
  "w32 \<Rightarrow> bool \<Rightarrow> bool \<Rightarrow> spawn_vars \<Rightarrow> gpg_err_code option \<times> spawn_vars" where
  "spawn_stderr_pipe os nonblock r_errfp v =
     (if \<not> r_errfp then (None, v)
      else
        case create_inheritable_pipe os Std_error INHERIT_WRITE (live v) of
          (None, l) \<Rightarrow> (Some GPG_ERR_GENERAL, v\<lparr>live := l\<rparr>)
        | (Some (r, w), l) \<Rightarrow>
            (case sysopen os r (if nonblock then ''r,nonblock'' else ''r'') l of
               (None, l1) \<Rightarrow>
                 (Some (gpg_err_code_from_syserror os),
                  v\<lparr>live :=
                      close_if_valid (fst (inpipe v))
                        (fclose_or_close (infp v) (snd (inpipe v)) (snd (inpipe v))
                          (close_if_valid (snd (outpipe v))
                            (fclose_or_close (outfp v) (fst (outpipe v)) (fst (outpipe v))
                              (CloseHandle w (CloseHandle r l1)))))\<rparr>)
             | (Some fp, l1) \<Rightarrow> (None, v\<lparr>errpipe := (r, w), errfp := Some fp, live := l1\<rparr>)))"

text \<open>
  Lines 561--569: the handle for each standard stream that has no pipe.  The third
  assignment tests \<^verbatim>\<open>GNUPG_SPAWN_KEEP_STDOUT\<close>, as the source does.
\<close>

definition spawn_null_handles :: "w32 \<Rightarrow> 32 word \<Rightarrow> spawn_vars \<Rightarrow> spawn_vars" where
  "spawn_null_handles os spawn_flags v =
     (let v0 = (if fst (inpipe v) = INVALID_HANDLE_VALUE
                then (if spawn_flags AND GNUPG_SPAWN_KEEP_STDIN \<noteq> 0
                      then v\<lparr>nullhd0 := GetStdHandle os Std_input\<rparr>
                      else (case w32_open_null os Std_input (live v) of
                              (h, l) \<Rightarrow> v\<lparr>nullhd0 := h, live := l\<rparr>))
                else v);
          v1 = (if snd (outpipe v0) = INVALID_HANDLE_VALUE
                then (if spawn_flags AND GNUPG_SPAWN_KEEP_STDOUT \<noteq> 0
                      then v0\<lparr>nullhd1 := GetStdHandle os Std_output\<rparr>
                      else (case w32_open_null os Std_output (live v0) of
                              (h, l) \<Rightarrow> v0\<lparr>nullhd1 := h, live := l\<rparr>))
                else v0);
          v2 = (if snd (errpipe v1) = INVALID_HANDLE_VALUE
                then (if spawn_flags AND GNUPG_SPAWN_KEEP_STDOUT \<noteq> 0
                      then v1\<lparr>nullhd2 := GetStdHandle os Std_error\<rparr>
                      else (case w32_open_null os Std_error (live v1) of
                              (h, l) \<Rightarrow> v1\<lparr>nullhd2 := h, live := l\<rparr>))
                else v1)
      in v2)"

text \<open>Lines 575--577: the standard handles of the \<^verbatim>\<open>STARTUPINFOW\<close> given to the child.\<close>

definition spawn_startupinfo :: "spawn_vars \<Rightarrow> startupinfo" where
  "spawn_startupinfo v =
     \<lparr>hStdInput = (if fst (inpipe v) = INVALID_HANDLE_VALUE then nullhd0 v else fst (inpipe v)),
      hStdOutput = (if snd (outpipe v) = INVALID_HANDLE_VALUE then nullhd1 v else snd (outpipe v)),
      hStdError = (if snd (errpipe v) = INVALID_HANDLE_VALUE then nullhd2 v else snd (errpipe v))\<rparr>"

text \<open>Lines 612--629: what the function closes when \<^verbatim>\<open>CreateProcessW\<close> has failed.\<close>

definition spawn_unwind :: "spawn_vars \<Rightarrow> resource list" where
  "spawn_unwind v =
     close_if_valid (snd (errpipe v))
       (fclose_or_close (errfp v) (fst (errpipe v)) (fst (errpipe v))
         (close_if_valid (snd (outpipe v))
           (fclose_or_close (outfp v) (fst (outpipe v)) (fst (outpipe v))
             (close_if_valid (fst (inpipe v))
               (fclose_or_close (infp v) (snd (inpipe v)) (snd (outpipe v)) (live v))))))"

text \<open>Lines 638--648: what the function closes after a successful \<^verbatim>\<open>CreateProcessW\<close>.\<close>

definition spawn_close_inherited :: "spawn_vars \<Rightarrow> resource list" where
  "spawn_close_inherited v =
     close_if_valid (snd (errpipe v))
       (close_if_valid (snd (outpipe v))
         (close_if_valid (fst (inpipe v))
           (close_if_valid (nullhd2 v)
             (close_if_valid (nullhd1 v)
               (close_if_valid (nullhd0 v) (live v))))))"

datatype spawn_outcome =
    Spawn_error gpg_err_code
  | Spawn_undefined
  | Spawn_ok "estream option" "estream option" "estream option" handle

text \<open>
  The result is the outcome, the resources created by the call that are still open when it
  returns, and the startup information handed to \<^verbatim>\<open>CreateProcessW\<close> when that call was
  reached.  \<open>Spawn_ok\<close> carries the three streams stored for the caller and the process
  handle stored as \<^verbatim>\<open>*pid\<close>; the thread handle is closed after \<^verbatim>\<open>ResumeThread\<close>.
  \<^verbatim>\<open>gnupg_allow_set_foregound_window\<close> creates and closes nothing and is left out.  The
  three booleans say whether \<^verbatim>\<open>r_infp\<close>, \<^verbatim>\<open>r_outfp\<close> and \<^verbatim>\<open>r_errfp\<close> are non-null.
\<close>

definition gnupg_spawn_process ::
  "w32 \<Rightarrow> string \<Rightarrow> string list \<Rightarrow> 32 word \<Rightarrow> bool \<Rightarrow> bool \<Rightarrow> bool
     \<Rightarrow> spawn_outcome \<times> resource list \<times> startupinfo option" where
  "gnupg_spawn_process os pgm argv spawn_flags r_infp r_outfp r_errfp =
     (let nonblock = (spawn_flags AND GNUPG_SPAWN_NONBLOCK \<noteq> 0) in
      case spawn_stdin_pipe os nonblock r_infp spawn_vars_init of
        (Some e, v) \<Rightarrow> (Spawn_error e, live v, None)
      | (None, v) \<Rightarrow>
      case spawn_stdout_pipe os nonblock r_outfp v of
        (Some e, v) \<Rightarrow> (Spawn_error e, live v, None)
      | (None, v) \<Rightarrow>
      case spawn_stderr_pipe os nonblock r_errfp v of
        (Some e, v) \<Rightarrow> (Spawn_error e, live v, None)
      | (None, v) \<Rightarrow>
      case build_w32_commandline os pgm argv of
        Error e \<Rightarrow> (Spawn_error e, live v, None)
      | Overrun \<Rightarrow> (Spawn_undefined, live v, None)
      | Cmdline cmdline \<Rightarrow>
          (case c_string cmdline of
             None \<Rightarrow> (Spawn_undefined, live v, None)
           | Some line \<Rightarrow>
               (let v = spawn_null_handles os spawn_flags v;
                    si = spawn_startupinfo v;
                    rc = (if \<not> utf8_to_wchar os pgm then None
                          else if \<not> utf8_to_wchar os line then None
                          else CreateProcessW os pgm line si
                                 (spawn_flags AND GNUPG_SPAWN_DETACHED \<noteq> 0))
                in case rc of
                     None \<Rightarrow> (Spawn_error GPG_ERR_GENERAL, spawn_unwind v, Some si)
                   | Some (process, thread) \<Rightarrow>
                       (Spawn_ok (if r_infp then infp v else None)
                                 (if r_outfp then outfp v else None)
                                 (if r_errfp then errfp v else None)
                                 process,
                        CloseHandle thread
                          (spawn_close_inherited v @ [Kernel_handle process, Kernel_handle thread]),
                        Some si))))"

subsection \<open>Notions used to state the results on \<^verbatim>\<open>gnupg_spawn_process\<close>\<close>

text \<open>
  For a standard stream without a pipe, as the source computes it from the flag bit it
  tests: the handle given to the child, and the handle the call opens for it (none when
  the parent's handle is kept or the null device cannot be opened); and the startup
  information of a launch without any pipe.  The source tests \<^verbatim>\<open>GNUPG_SPAWN_KEEP_STDOUT\<close>
  for standard error.
\<close>

definition no_pipe_handle :: "w32 \<Rightarrow> 32 word \<Rightarrow> 32 word \<Rightarrow> std \<Rightarrow> handle" where
  "no_pipe_handle os spawn_flags keep which =
     (if spawn_flags AND keep \<noteq> 0 then GetStdHandle os which else CreateFileW_nul os which)"

definition no_pipe_opened :: "w32 \<Rightarrow> 32 word \<Rightarrow> 32 word \<Rightarrow> std \<Rightarrow> resource list" where
  "no_pipe_opened os spawn_flags keep which =
     (if spawn_flags AND keep \<noteq> 0 \<or> CreateFileW_nul os which = INVALID_HANDLE_VALUE then []
      else [Kernel_handle (CreateFileW_nul os which)])"

definition no_pipe_startupinfo :: "w32 \<Rightarrow> 32 word \<Rightarrow> startupinfo" where
  "no_pipe_startupinfo os spawn_flags =
     \<lparr>hStdInput = no_pipe_handle os spawn_flags GNUPG_SPAWN_KEEP_STDIN Std_input,
      hStdOutput = no_pipe_handle os spawn_flags GNUPG_SPAWN_KEEP_STDOUT Std_output,
      hStdError = no_pipe_handle os spawn_flags GNUPG_SPAWN_KEEP_STDOUT Std_error\<rparr>"


subsection \<open>An environment in which every call succeeds\<close>

text \<open>Used to run the functions on concrete inputs; single answers are changed where a
  failure is wanted.\<close>

definition example_os :: w32 where
  "example_os =
     \<lparr>xtrymalloc = (\<lambda>n. True),
      xtrycalloc = (\<lambda>n. True),
      errno = 12,
      TerminateProcess = (\<lambda>h c. True),
      GetExitCodeProcess = (\<lambda>h. Some 0),
      WaitForSingleObject = (\<lambda>h hang. WAIT_OBJECT_0),
      WaitForMultipleObjects = (\<lambda>hs hang. WAIT_OBJECT_0),
      open_osfhandle = (\<lambda>h mode. if h = -1 then -1 else 3),
      es_sysopen = (\<lambda>h mode. Some (Estream h mode)),
      CreatePipe = (\<lambda>s. case s of Std_input \<Rightarrow> Some (100, 101)
                              | Std_output \<Rightarrow> Some (102, 103)
                              | Std_error \<Rightarrow> Some (104, 105)),
      SetHandleInformation = (\<lambda>h. True),
      CreateFileW_nul = (\<lambda>s. case s of Std_input \<Rightarrow> 200 | Std_output \<Rightarrow> 201 | Std_error \<Rightarrow> 202),
      GetStdHandle = (\<lambda>s. case s of Std_input \<Rightarrow> 10 | Std_output \<Rightarrow> 11 | Std_error \<Rightarrow> 12),
      utf8_to_wchar = (\<lambda>s. True),
      CreateProcessW = (\<lambda>pgm line si detached. Some (300, 301))\<rparr>"

definition example_process :: gnupg_process where
  "example_process =
     \<lparr>pgmname = ''gpg'', terminated = False, flags = 0, hProcess = 300,
      hd_in = 101, hd_out = 102, hd_err = 104, exitcode = -1\<rparr>"


section \<open>Properties\<close>

subsection \<open>The command-line builder\<close>

lemma store_cursor:
  "store (map Some pre @ r # rest) (length pre) c = Some (map Some (pre @ [c]) @ rest)"
  by (simp add: store_def list_update_append)

lemma store_none: "length buf \<le> p \<Longrightarrow> store buf p c = None"
  by (simp add: store_def)

lemma stpcpy_cursor:
  "stpcpy (map Some pre @ rest) (length pre) s =
     (if length s < length rest
      then Some (map Some (pre @ s) @ Some NUL # drop (Suc (length s)) rest, length pre + length s)
      else None)"
proof (induction s arbitrary: pre rest)
  case Nil
  show ?case
  proof (cases rest)
    case Nil then show ?thesis by (simp add: store_none)
  next
    case (Cons r rs)
    then show ?thesis using store_cursor[of pre r rs NUL] by simp
  qed
next
  case (Cons c s)
  show ?case
  proof (cases rest)
    case Nil then show ?thesis by (simp add: store_none)
  next
    case (Cons r rs)
    have "stpcpy (map Some pre @ rest) (length pre) (c # s)
          = stpcpy (map Some (pre @ [c]) @ rs) (length (pre @ [c])) s"
      using store_cursor[of pre r rs c] Cons by simp
    then show ?thesis using Cons.IH[of "pre @ [c]" rs] Cons by simp
  qed
qed

lemma copy_doubling_cursor:
  "copy_doubling (map Some pre @ rest) (length pre) s =
     (if length (double_quotes s) \<le> length rest
      then Some (map Some (pre @ double_quotes s) @ drop (length (double_quotes s)) rest,
                 length pre + length (double_quotes s))
      else None)"
proof (induction s arbitrary: pre rest)
  case Nil
  show ?case by (simp add: double_quotes_def)
next
  case (Cons c s)
  show ?case
  proof (cases rest)
    case Nil then show ?thesis by (simp add: store_none double_quotes_def)
  next
    case r1: (Cons r rs)
    show ?thesis
    proof (cases "c = dquote")
      case False
      have "copy_doubling (map Some pre @ rest) (length pre) (c # s)
          = copy_doubling (map Some (pre @ [c]) @ rs) (length (pre @ [c])) s"
        using store_cursor[of pre r rs c] r1 False by simp
      then show ?thesis using Cons.IH[of "pre @ [c]" rs] r1 False
        by (simp add: double_quotes_def)
    next
      case True
      show ?thesis
      proof (cases rs)
        case Nil
        then show ?thesis using store_cursor[of pre r rs c] r1 True
          by (simp add: double_quotes_def store_def)
      next
        case (Cons r' rs')
        have "copy_doubling (map Some pre @ rest) (length pre) (c # s)
          = copy_doubling (map Some (pre @ [c, c]) @ rs') (length (pre @ [c, c])) s"
          using store_cursor[of pre r rs c] store_cursor[of "pre @ [c]" r' rs' c] r1 True Cons by simp
        then show ?thesis using Cons.IH[of "pre @ [c, c]" rs'] r1 True Cons
          by (simp add: double_quotes_def)
      qed
    qed
  qed
qed


declare stpcpy.simps [simp del] copy_doubling.simps [simp del]

lemma strpbrk_needs_quoting: "(strpbrk t special = None) = (\<not> needs_quoting t)"
proof (cases "dropWhile (\<lambda>c. c \<notin> set special) t")
  case Nil
  have "strpbrk t special = None" unfolding strpbrk_def Nil by simp
  moreover have "\<forall>c\<in>set t. c \<notin> set special"
    using Nil by (simp add: dropWhile_eq_Nil_conv)
  ultimately show ?thesis by (simp add: needs_quoting_def list_ex_iff)
next
  case (Cons r rs)
  have "strpbrk t special \<noteq> None" unfolding strpbrk_def Cons by simp
  moreover have "\<not> (\<forall>c\<in>set t. c \<notin> set special)"
    using Cons dropWhile_eq_Nil_conv[of "\<lambda>c. c \<notin> set special" t] by auto
  ultimately show ?thesis by (simp add: needs_quoting_def list_ex_iff)
qed

lemma build_w32_commandline_copy_unfold:
  "build_w32_commandline_copy buffer p string =
     (if string = [] then stpcpy buffer p [dquote, dquote]
      else if needs_quoting string then
        Option.bind (stpcpy buffer p [dquote]) (\<lambda>(b1, p1).
        Option.bind (copy_doubling b1 p1 string) (\<lambda>(b2, p2).
        Option.bind (store b2 p2 dquote) (\<lambda>b3.
        Option.bind (store b3 (Suc p2) NUL) (\<lambda>b4. Some (b4, Suc p2)))))
      else stpcpy buffer p string)"
  unfolding build_w32_commandline_copy_def
  by (simp add: strpbrk_needs_quoting del: not_None_eq)

lemma double_quotes_nonempty: "t \<noteq> [] \<Longrightarrow> double_quotes t \<noteq> []"
  by (cases t) (auto simp: double_quotes_def)

lemma build_w32_commandline_copy_cursor:
  "build_w32_commandline_copy (map Some pre @ rest) (length pre) t =
     (if length (render_token t) < length rest
      then Some (map Some (pre @ render_token t) @ Some NUL # drop (Suc (length (render_token t))) rest,
                 length pre + length (render_token t))
      else None)"
proof (cases "t = []")
  case True
  then show ?thesis
    using stpcpy_cursor[of pre rest "[dquote, dquote]"]
    by (simp add: build_w32_commandline_copy_unfold render_token_def)
next
  case ne: False
  show ?thesis
  proof (cases "needs_quoting t")
    case False
    then show ?thesis
      using ne stpcpy_cursor[of pre rest t]
      by (simp add: build_w32_commandline_copy_unfold render_token_def)
  next
    case True
    let ?d = "double_quotes t"
    have dne: "?d \<noteq> []" using ne by (rule double_quotes_nonempty)
    have rt: "render_token t = dquote # ?d @ [dquote]"
      using ne True by (simp add: render_token_def)
    have unfold: "build_w32_commandline_copy (map Some pre @ rest) (length pre) t =
        Option.bind (stpcpy (map Some pre @ rest) (length pre) [dquote]) (\<lambda>(b1, p1).
        Option.bind (copy_doubling b1 p1 t) (\<lambda>(b2, p2).
        Option.bind (store b2 p2 dquote) (\<lambda>b3.
        Option.bind (store b3 (Suc p2) NUL) (\<lambda>b4. Some (b4, Suc p2)))))"
      using ne True by (simp add: build_w32_commandline_copy_unfold)
    show ?thesis
    proof (cases "length rest < 2")
      case True
      then show ?thesis using unfold stpcpy_cursor[of pre rest "[dquote]"] rt by simp
    next
      case False
      then obtain r0 r1 rest1 where rest: "rest = r0 # r1 # rest1"
        by (cases rest; cases "tl rest") auto
      have s1: "stpcpy (map Some pre @ rest) (length pre) [dquote]
                 = Some (map Some (pre @ [dquote]) @ Some NUL # rest1, length (pre @ [dquote]))"
        using stpcpy_cursor[of pre rest "[dquote]"] rest by simp
      let ?pre1 = "pre @ [dquote]"
      let ?rest1 = "Some NUL # rest1"
      show ?thesis
      proof (cases "length ?d \<le> length ?rest1")
        case False
        then show ?thesis
          using unfold s1 copy_doubling_cursor[of ?pre1 ?rest1 t] rt rest by simp
      next
        case fits: True
        let ?pre2 = "?pre1 @ ?d"
        let ?rest2 = "drop (length ?d) ?rest1"
        have s2: "copy_doubling (map Some ?pre1 @ ?rest1) (length ?pre1) t
                    = Some (map Some ?pre2 @ ?rest2, length ?pre2)"
          using copy_doubling_cursor[of ?pre1 ?rest1 t] fits by simp
        have len2: "length ?rest2 = Suc (length rest1) - length ?d" by simp
        show ?thesis
        proof (cases ?rest2)
          case Nil
          then have "length ?d = Suc (length rest1)" using fits len2 by simp
          then show ?thesis
            using unfold s1 s2 Nil rt rest by (simp add: store_def)
        next
          case c2: (Cons q0 rest3)
          have s3: "store (map Some ?pre2 @ ?rest2) (length ?pre2) dquote
                     = Some (map Some (?pre2 @ [dquote]) @ rest3)"
            using store_cursor[of ?pre2 q0 rest3 dquote] c2 by simp
          have len3: "Suc (length rest3) = Suc (length rest1) - length ?d"
            using len2 c2 by simp
          obtain a l where d: "?d = a # l" using dne by (cases ?d) auto
          have "drop (length l) rest1 = q0 # rest3" using c2 d by simp
          then have "tl (drop (length l) rest1) = rest3" by simp
          then have r3: "rest3 = drop (length ?d) rest1"
            by (simp add: d drop_Suc tl_drop)
          show ?thesis
          proof (cases rest3)
            case Nil
            then have "Suc (length ?d) = Suc (length rest1)" using len3 by simp
            then show ?thesis
              using unfold s1 s2 s3 Nil rt rest by (simp add: store_def)
          next
            case c3: (Cons q1 rest4)
            have s4: "store (map Some (?pre2 @ [dquote]) @ rest3) (Suc (length ?pre2)) NUL
                     = Some (map Some (?pre2 @ [dquote, NUL]) @ rest4)"
              using store_cursor[of "?pre2 @ [dquote]" q1 rest4 NUL] c3 by simp
            have r4: "rest4 = drop (Suc (length ?d)) rest1"
              using c3 r3 by (metis drop_Suc list.sel(3) tl_drop)
            have lt: "length ?d < length rest1" using len3 c3 by simp
            show ?thesis
              using unfold s1 s2 s3 s4 rt rest r4 lt by simp
          qed
        qed
      qed
    qed
  qed
qed

lemma join_argv_cursor:
  "join_argv (map Some pre @ Some NUL # rest) (length pre) argv =
     (if length (render_tail argv) \<le> length rest
      then Some (map Some (pre @ render_tail argv) @ Some NUL # drop (length (render_tail argv)) rest,
                 length pre + length (render_tail argv))
      else None)"
proof (induction argv arbitrary: pre rest)
  case Nil
  show ?case by (simp add: render_tail_def)
next
  case (Cons a argv)
  let ?pre1 = "pre @ [space]"
  let ?r = "render_token a"
  have p1: "store (map Some pre @ Some NUL # rest) (length pre) space = Some (map Some ?pre1 @ rest)"
    by (rule store_cursor)
  have c1: "build_w32_commandline_copy (map Some ?pre1 @ rest) (Suc (length pre)) a =
     (if length ?r < length rest
      then Some (map Some (?pre1 @ ?r) @ Some NUL # drop (Suc (length ?r)) rest,
                 length ?pre1 + length ?r)
      else None)"
    using build_w32_commandline_copy_cursor[of ?pre1 rest a] by simp
  have tail: "render_tail (a # argv) = space # ?r @ render_tail argv"
    by (simp add: render_tail_def)
  show ?case
  proof (cases "length ?r < length rest")
    case False
    then show ?thesis using p1 c1 tail by simp
  next
    case True
    have "join_argv (map Some pre @ Some NUL # rest) (length pre) (a # argv)
        = join_argv (map Some (?pre1 @ ?r) @ Some NUL # drop (Suc (length ?r)) rest)
             (length (?pre1 @ ?r)) argv"
      using p1 c1 True by simp
    also have "\<dots> =
     (if length (render_tail argv) \<le> length (drop (Suc (length ?r)) rest)
      then Some (map Some ((?pre1 @ ?r) @ render_tail argv) @ Some NUL #
                   drop (length (render_tail argv)) (drop (Suc (length ?r)) rest),
                 length (?pre1 @ ?r) + length (render_tail argv))
      else None)"
      by (rule Cons.IH)
    finally show ?thesis using True tail by (auto simp: add.commute)
  qed
qed

lemma join_spaces_Cons: "join_spaces (t # ts) = t @ concat (map (\<lambda>a. space # a) ts)"
  by (induction ts arbitrary: t) (simp_all)

lemma render_cmdline_eq: "render_cmdline pgm argv = render_token pgm @ render_tail argv"
  by (simp add: render_cmdline_def render_tail_def join_spaces_Cons map_map comp_def del: join_spaces.simps)

lemma stores_characterisation:
  "Option.bind (build_w32_commandline_copy (replicate n None) 0 pgm) (\<lambda>(b, p). join_argv b p argv) =
     (if length (render_cmdline pgm argv) < n
      then Some (map Some (render_cmdline pgm argv) @ Some NUL #
                   replicate (n - Suc (length (render_cmdline pgm argv))) None,
                 length (render_cmdline pgm argv))
      else None)"
proof -
  let ?r = "render_token pgm"
  let ?t = "render_tail argv"
  have c: "build_w32_commandline_copy (replicate n None) 0 pgm =
     (if length ?r < n
      then Some (map Some ?r @ Some NUL # replicate (n - Suc (length ?r)) None, length ?r)
      else None)"
    using build_w32_commandline_copy_cursor[of "[]" "replicate n None" pgm] by simp
  show ?thesis
  proof (cases "length ?r < n")
    case False
    then show ?thesis using c by (simp add: render_cmdline_eq)
  next
    case True
    have j: "join_argv (map Some ?r @ Some NUL # replicate (n - Suc (length ?r)) None) (length ?r) argv =
     (if length ?t \<le> n - Suc (length ?r)
      then Some (map Some (?r @ ?t) @ Some NUL # replicate (n - Suc (length ?r) - length ?t) None,
                 length ?r + length ?t)
      else None)"
      using join_argv_cursor[of ?r "replicate (n - Suc (length ?r)) None" argv] by simp
    show ?thesis using c j True by (auto simp: render_cmdline_eq)
  qed
qed

lemma build_w32_commandline_characterisation:
  "build_w32_commandline os pgm argv =
     (if \<not> xtrymalloc os (unat (cmdline_size pgm argv)) then Error (gpg_err_code_from_syserror os)
      else if length (render_cmdline pgm argv) < unat (cmdline_size pgm argv)
      then Cmdline (map Some (render_cmdline pgm argv) @ Some NUL #
              replicate (unat (cmdline_size pgm argv) - Suc (length (render_cmdline pgm argv))) None)
      else Overrun)"
  unfolding build_w32_commandline_def Let_def stores_characterisation by simp

lemma count_inner_quotes_eq:
  "count_inner_quotes n s = n + of_nat (length (filter (\<lambda>c. c = dquote) s))"
  by (induction s arbitrary: n) simp_all

lemma count_token_eq: "count_token n s = n + of_nat (token_bytes s)"
  by (simp add: count_token_def count_inner_quotes_eq token_bytes_def)

lemma count_argv_eq: "count_argv n argv = n + of_nat (sum_list (map token_bytes argv))"
  by (induction argv arbitrary: n) (simp_all add: count_token_eq)

lemma cmdline_size_eq: "cmdline_size pgm argv = of_nat (cmdline_bytes pgm argv)"
  by (simp add: cmdline_size_def count_argv_eq count_token_eq cmdline_bytes_def)

lemma length_double_quotes:
  "length (double_quotes s) = length s + length (filter (\<lambda>c. c = dquote) s)"
  by (induction s) (simp_all add: double_quotes_def)

lemma length_render_token: "Suc (length (render_token t)) \<le> token_bytes t"
  by (simp add: render_token_def token_bytes_def length_double_quotes)

lemma length_render_tail: "length (render_tail argv) \<le> sum_list (map token_bytes argv)"
proof (induction argv)
  case Nil
  show ?case by (simp add: render_tail_def)
next
  case (Cons a argv)
  have "render_tail (a # argv) = space # render_token a @ render_tail argv"
    by (simp add: render_tail_def)
  then show ?case using Cons length_render_token[of a] by simp
qed

lemma length_render_cmdline: "length (render_cmdline pgm argv) + 2 \<le> cmdline_bytes pgm argv"
  using length_render_token[of pgm] length_render_tail[of argv]
  by (simp add: render_cmdline_eq cmdline_bytes_def)

lemma unat_cmdline_size:
  "cmdline_bytes pgm argv < 2 ^ 32 \<Longrightarrow> unat (cmdline_size pgm argv) = cmdline_bytes pgm argv"
proof -
  assume "cmdline_bytes pgm argv < 2 ^ 32"
  then have "cmdline_bytes pgm argv < 2 ^ LENGTH(32)" by simp
  then show ?thesis unfolding cmdline_size_eq by (rule of_nat_inverse [OF refl])
qed

lemma c_string_terminated:
  "NUL \<notin> set r \<Longrightarrow> c_string (map Some r @ Some NUL # junk) = Some r"
  by (induction r) auto

lemma set_double_quotes: "set (double_quotes t) = set t"
  by (induction t) (auto simp: double_quotes_def)

lemma set_render_token: "set (render_token t) \<subseteq> insert dquote (set t)"
  by (auto simp: render_token_def set_double_quotes)

lemma set_render_tail:
  "set (render_tail argv) \<subseteq> insert space (insert dquote (\<Union>a\<in>set argv. set a))"
proof (induction argv)
  case Nil
  show ?case by (simp add: render_tail_def)
next
  case (Cons a argv)
  have "render_tail (a # argv) = space # render_token a @ render_tail argv"
    by (simp add: render_tail_def)
  then show ?case using Cons set_render_token[of a] by auto
qed

lemma NUL_render_cmdline:
  assumes "\<forall>s\<in>set (pgm # argv). NUL \<notin> set s"
  shows "NUL \<notin> set (render_cmdline pgm argv)"
proof -
  have "NUL \<noteq> dquote" "NUL \<noteq> space" by (simp_all add: NUL_def dquote_def space_def)
  then show ?thesis
    using assms set_render_token[of pgm] set_render_tail[of argv]
    by (auto simp: render_cmdline_eq)
qed

lemma length_render_token_ge: "length t \<le> length (render_token t)"
  by (simp add: render_token_def length_double_quotes)

lemma cmdline_bytes_replicate:
  "cmdline_bytes pgm (replicate k s) = token_bytes pgm + k * token_bytes s + 1"
  by (simp add: cmdline_bytes_def sum_list_replicate)

lemma render_cmdline_long:
  "length s < length (render_cmdline pgm (replicate (Suc k) s))"
proof -
  have "render_tail (replicate (Suc k) s) = space # render_token s @ render_tail (replicate k s)"
    by (simp add: render_tail_def)
  then show ?thesis
    using length_render_token_ge[of s] by (simp add: render_cmdline_eq)
qed

lemma token_bytes_plain:
  "dquote \<notin> set s \<Longrightarrow> token_bytes s = length s + 3"
  by (induction s) (auto simp: token_bytes_def)

text \<open>
  Claim C1, as amended.  For every program path and argument vector of C strings whose byte
  count (for each token its length plus 3 plus one for each double quote in it, and one
  more byte at the end) is below \<open>2 ^ 32\<close>, the builder returns, when its allocation
  succeeds, the program path and the arguments, each rendered as a token and joined by
  single spaces: a token with no space, tab, newline, vertical tab, form feed or double
  quote is copied verbatim, any other non-empty token is wrapped in double quotes with each
  double quote in it doubled, and the empty token is two double quotes.  When the
  allocation fails it returns the error for the system error and no command line.  For
  any byte count, a command line that is returned is the one so rendered.
\<close>

theorem build_w32_commandline_quoting:
  assumes "\<forall>s\<in>set (pgm # argv). NUL \<notin> set s"
  shows "(cmdline_bytes pgm argv < 2 ^ 32 \<and> xtrymalloc os (unat (cmdline_size pgm argv)) \<longrightarrow>
            (\<exists>buf. build_w32_commandline os pgm argv = Cmdline buf
                 \<and> c_string buf = Some (render_cmdline pgm argv)))
       \<and> (\<not> xtrymalloc os (unat (cmdline_size pgm argv)) \<longrightarrow>
            build_w32_commandline os pgm argv = Error (gpg_err_code_from_syserror os))
       \<and> (\<forall>buf. build_w32_commandline os pgm argv = Cmdline buf \<longrightarrow>
            c_string buf = Some (render_cmdline pgm argv))"
proof -
  have right: "c_string buf = Some (render_cmdline pgm argv)"
    if "build_w32_commandline os pgm argv = Cmdline buf" for buf
  proof -
    from that obtain junk where "buf = map Some (render_cmdline pgm argv) @ Some NUL # junk"
      unfolding build_w32_commandline_characterisation by (auto split: if_splits)
    then show ?thesis
      using NUL_render_cmdline[OF assms] by (simp add: c_string_terminated)
  qed
  have returns: "\<exists>buf. build_w32_commandline os pgm argv = Cmdline buf"
    if a: "cmdline_bytes pgm argv < 2 ^ 32 \<and> xtrymalloc os (unat (cmdline_size pgm argv))"
  proof -
    have "length (render_cmdline pgm argv) < unat (cmdline_size pgm argv)"
      using a length_render_cmdline[of pgm argv] by (simp add: unat_cmdline_size)
    then show ?thesis
      using a unfolding build_w32_commandline_characterisation by simp
  qed
  have fails: "build_w32_commandline os pgm argv = Error (gpg_err_code_from_syserror os)"
    if "\<not> xtrymalloc os (unat (cmdline_size pgm argv))"
    using that unfolding build_w32_commandline_characterisation by simp
  show ?thesis using right returns fails by blast
qed

theorem build_w32_commandline_quoting_witness:
  "(\<exists>buf. build_w32_commandline example_os ''gpg''
            [''--batch'', ''my file'', [], [CHR ''a'', dquote, CHR ''b'']] = Cmdline buf
     \<and> c_string buf = Some (''gpg --batch '' @ [dquote] @ ''my file'' @
           [dquote, space, dquote, dquote, space, dquote, CHR ''a'', dquote, dquote, CHR ''b'', dquote]))
   \<and> build_w32_commandline (example_os\<lparr>xtrymalloc := \<lambda>n. False\<rparr>) ''gpg''
            [''--batch'', ''my file'', [], [CHR ''a'', dquote, CHR ''b'']] = Error (GPG_ERR_SYSTEM 12)"
proof -
  let ?argv = "[''--batch'', ''my file'', [], [CHR ''a'', dquote, CHR ''b'']]"
  let ?os = "example_os\<lparr>xtrymalloc := \<lambda>n. False\<rparr>"
  have nul: "\<forall>s\<in>set (''gpg'' # ?argv). NUL \<notin> set s"
    by (simp add: NUL_def dquote_def)
  have fits: "cmdline_bytes ''gpg'' ?argv < 2 ^ 32
                \<and> xtrymalloc example_os (unat (cmdline_size ''gpg'' ?argv))"
    by (simp add: example_os_def cmdline_bytes_def token_bytes_def dquote_def)
  have r: "render_cmdline ''gpg'' ?argv = ''gpg --batch '' @ [dquote] @ ''my file'' @
           [dquote, space, dquote, dquote, space, dquote, CHR ''a'', dquote, dquote, CHR ''b'', dquote]"
    by (simp add: render_cmdline_def render_token_def needs_quoting_def special_def
        double_quotes_def dquote_def space_def)
  have no: "\<not> xtrymalloc ?os (unat (cmdline_size ''gpg'' ?argv))"
    by (simp add: example_os_def)
  have e: "gpg_err_code_from_syserror ?os = GPG_ERR_SYSTEM 12"
    by (simp add: gpg_err_code_from_syserror_def example_os_def)
  note t = build_w32_commandline_quoting [OF nul, of example_os]
  note t' = build_w32_commandline_quoting [OF nul, of ?os]
  from t fits have "\<exists>buf. build_w32_commandline example_os ''gpg'' ?argv = Cmdline buf
                 \<and> c_string buf = Some (render_cmdline ''gpg'' ?argv)"
    by blast
  moreover from t' no have "build_w32_commandline ?os ''gpg'' ?argv = Error (gpg_err_code_from_syserror ?os)"
    by blast
  ultimately show ?thesis unfolding r e by blast
qed

text \<open>
  Claim C1 as stated, for every argument vector, fails in two ways.  With the program
  \<open>gpg\<close> and \<open>2 ^ 22\<close> arguments of 1021 bytes each, the byte count \<open>2 ^ 32 + 7\<close> wraps to
  7, the allocation of 7 bytes succeeds and the builder stores beyond it: no command line
  is returned.  And when the allocation fails, the builder returns an error.
\<close>

theorem build_w32_commandline_no_line_counterexample:
  "build_w32_commandline example_os ''gpg'' (replicate (2 ^ 22) (replicate 1021 (CHR ''a''))) = Overrun
   \<and> build_w32_commandline (example_os\<lparr>xtrymalloc := \<lambda>n. False\<rparr>) ''gpg'' [''--version'']
       = Error (GPG_ERR_SYSTEM 12)"
proof
  define s where "s = replicate 1021 (CHR ''a'')"
  define k :: nat where "k = 2 ^ 22 - 1"
  have k: "(2::nat) ^ 22 = Suc k" by (simp add: k_def)
  have ls: "length s = 1021" by (simp add: s_def)
  have "dquote \<notin> set s" by (simp add: s_def dquote_def)
  then have tb: "token_bytes s = 1024" using ls by (simp add: token_bytes_plain)
  have tba: "token_bytes ''gpg'' = 6" by (simp add: token_bytes_plain dquote_def)
  have "cmdline_bytes ''gpg'' (replicate (2 ^ 22) s) = 6 + 2 ^ 22 * 1024 + 1"
    unfolding cmdline_bytes_replicate tb tba by simp
  then have sz: "cmdline_size ''gpg'' (replicate (2 ^ 22) s) = 7"
    by (simp add: cmdline_size_eq)
  have "\<not> length (render_cmdline ''gpg'' (replicate (2 ^ 22) s)) < 7"
    unfolding k using render_cmdline_long[of s "''gpg''" k] ls by simp
  then have "build_w32_commandline example_os ''gpg'' (replicate (2 ^ 22) s) = Overrun"
    unfolding build_w32_commandline_characterisation sz by (simp add: example_os_def)
  then show "build_w32_commandline example_os ''gpg''
               (replicate (2 ^ 22) (replicate 1021 (CHR ''a''))) = Overrun"
    unfolding s_def by simp
next
  show "build_w32_commandline (example_os\<lparr>xtrymalloc := \<lambda>n. False\<rparr>) ''gpg'' [''--version'']
          = Error (GPG_ERR_SYSTEM 12)"
    unfolding build_w32_commandline_characterisation
    by (simp add: example_os_def gpg_err_code_from_syserror_def)
qed

text \<open>
  Claim C10, as amended.  When the byte count (for each token its length plus 3 plus one
  for each double quote in it, and one more byte at the end) is below \<open>2 ^ 32\<close>, so that
  it does not wrap around in the 32 bits of \<^verbatim>\<open>n\<close>, the C variable \<^verbatim>\<open>n\<close>, read as an unsigned
  number of 32 bits, holds exactly that count, the rendered command line with its joining
  spaces and its terminating NUL is shorter than that, and no store of
  \<^verbatim>\<open>build_w32_commandline_copy\<close> or of the joining loop falls outside the allocation.
\<close>

theorem cmdline_size_sufficient:
  assumes "cmdline_bytes pgm argv < 2 ^ 32"
  shows "unat (cmdline_size pgm argv) = cmdline_bytes pgm argv
       \<and> length (render_cmdline pgm argv) + 1 < unat (cmdline_size pgm argv)
       \<and> build_w32_commandline os pgm argv \<noteq> Overrun"
proof -
  have u: "unat (cmdline_size pgm argv) = cmdline_bytes pgm argv"
    using assms by (rule unat_cmdline_size)
  have l: "length (render_cmdline pgm argv) + 1 < unat (cmdline_size pgm argv)"
    using length_render_cmdline[of pgm argv] u by simp
  then have "build_w32_commandline os pgm argv \<noteq> Overrun"
    unfolding build_w32_commandline_characterisation by simp
  with u l show ?thesis by simp
qed


theorem cmdline_size_sufficient_witness:
  "unat (cmdline_size ''gpg'' [''my file'']) = 17
     \<and> length (render_cmdline ''gpg'' [''my file'']) + 1 < unat (cmdline_size ''gpg'' [''my file''])
     \<and> build_w32_commandline example_os ''gpg'' [''my file''] \<noteq> Overrun"
proof -
  have fits: "cmdline_bytes ''gpg'' [''my file''] < 2 ^ 32"
    by (simp add: cmdline_bytes_def token_bytes_def dquote_def)
  have v: "cmdline_bytes ''gpg'' [''my file''] = 17"
    by (simp add: cmdline_bytes_def token_bytes_def dquote_def)
  from cmdline_size_sufficient [OF fits, of example_os] v show ?thesis
    by simp
qed

text \<open>
  Claim C10 as stated, for every argument vector, fails where the count wraps around.
  With the program \<open>a\<close> and \<open>2 ^ 21\<close> arguments of 2045 bytes each, the count is
  \<open>2 ^ 32 + 5\<close>; \<^verbatim>\<open>n\<close> is 5, five bytes are allocated, and the second token is stored
  beyond them.
\<close>

theorem cmdline_size_wraps_counterexample:
  "cmdline_size ''a'' (replicate (2 ^ 21) (replicate 2045 (CHR ''a''))) = 5
   \<and> build_w32_commandline example_os ''a'' (replicate (2 ^ 21) (replicate 2045 (CHR ''a''))) = Overrun"
proof -
  define s where "s = replicate 2045 (CHR ''a'')"
  define k :: nat where "k = 2 ^ 21 - 1"
  have k: "(2::nat) ^ 21 = Suc k" by (simp add: k_def)
  have ls: "length s = 2045" by (simp add: s_def)
  have "dquote \<notin> set s" by (simp add: s_def dquote_def)
  then have tb: "token_bytes s = 2048" using ls by (simp add: token_bytes_plain)
  have tba: "token_bytes ''a'' = 4" by (simp add: token_bytes_plain dquote_def)
  have "cmdline_bytes ''a'' (replicate (2 ^ 21) s) = 4 + 2 ^ 21 * 2048 + 1"
    unfolding cmdline_bytes_replicate tb tba by simp
  then have sz: "cmdline_size ''a'' (replicate (2 ^ 21) s) = 5"
    by (simp add: cmdline_size_eq)
  have "\<not> length (render_cmdline ''a'' (replicate (2 ^ 21) s)) < 5"
    unfolding k using render_cmdline_long[of s "''a''" k] ls by simp
  then have "build_w32_commandline example_os ''a'' (replicate (2 ^ 21) s) = Overrun"
    unfolding build_w32_commandline_characterisation sz by (simp add: example_os_def)
  with sz show ?thesis unfolding s_def by simp
qed

subsection \<open>Kill, exit status and release\<close>

lemma process_kill_result:
  "process_kill os p c =
     ((if TerminateProcess os (hProcess p) c then gpg_err_code_from_syserror os else GPG_ERR_NO_ERROR),
      [Call_pre_syscall, Call_TerminateProcess (hProcess p) c, Call_post_syscall])"
  by (simp add: process_kill_def)

lemma gnupg_process_release_calls:
  "gnupg_process_release os (Some p) =
     (if terminated p
      then [Call_pre_syscall, Call_TerminateProcess (hProcess p) 1, Call_post_syscall] @
           (if hProcess p = INVALID_HANDLE_VALUE then []
            else [Call_pre_syscall, Call_WaitForSingleObject (hProcess p) True, Call_post_syscall] @
                 (case WaitForSingleObject os (hProcess p) True of
                    WAIT_FAILED \<Rightarrow> [Log_wait_failed]
                  | WAIT_unexpected code \<Rightarrow> [Log_unexpected_code code]
                  | _ \<Rightarrow> [])) @
           [Call_xfree_process]
      else [Call_xfree_process])"
  by (simp add: gnupg_process_release_def gnupg_process_terminate_def gnupg_process_wait_def
      process_kill_result Let_def split: wait_code.splits)

text \<open>
  Claim C2 says that releasing a process still recorded as running terminates it and waits
  for it, and that releasing a terminated one only discards it.  The code does the
  opposite: for a process whose \<open>terminated\<close> flag is false the only call is the
  \<^verbatim>\<open>xfree\<close>, and for one whose flag is true it calls \<^verbatim>\<open>TerminateProcess\<close> and then
  waits.  For the object of a detached launch (flag true, handle the sentinel) it calls
  \<^verbatim>\<open>TerminateProcess\<close> on the sentinel.
\<close>

theorem gnupg_process_release_running_process:
  "gnupg_process_release example_os (Some example_process) = [Call_xfree_process]
   \<and> gnupg_process_release example_os (Some (example_process\<lparr>terminated := True\<rparr>)) =
       [Call_pre_syscall, Call_TerminateProcess 300 1, Call_post_syscall,
        Call_pre_syscall, Call_WaitForSingleObject 300 True, Call_post_syscall,
        Call_xfree_process]
   \<and> gnupg_process_release example_os
        (Some (example_process\<lparr>terminated := True, hProcess := INVALID_HANDLE_VALUE\<rparr>)) =
       [Call_pre_syscall, Call_TerminateProcess INVALID_HANDLE_VALUE 1, Call_post_syscall,
        Call_xfree_process]"
  by (simp add: gnupg_process_release_calls example_process_def example_os_def
      INVALID_HANDLE_VALUE_def)

text \<open>
  Claim C8 says that a kill request on a live, unterminated process returns success when
  \<^verbatim>\<open>TerminateProcess\<close> succeeds and a failure code exactly when it fails.  The code
  returns the system error code when \<^verbatim>\<open>TerminateProcess\<close> succeeds and success when it
  fails.
\<close>

theorem process_kill_success_reported_as_error:
  "process_vctl example_os example_process (GNUPG_PROCESS_KILL_WITH_EC 1) =
     (GPG_ERR_SYSTEM 12, example_process, No_output,
      [Call_pre_syscall, Call_TerminateProcess 300 1, Call_post_syscall])
   \<and> process_vctl (example_os\<lparr>TerminateProcess := \<lambda>h c. False\<rparr>) example_process
        (GNUPG_PROCESS_KILL_WITH_EC 1) =
     (GPG_ERR_NO_ERROR, example_process, No_output,
      [Call_pre_syscall, Call_TerminateProcess 300 1, Call_post_syscall])"
  by (simp add: process_kill_result gpg_err_code_from_syserror_def example_process_def
      example_os_def INVALID_HANDLE_VALUE_def)

text \<open>
  Claim C5.  Neither the kill-with-exit-code request nor \<^verbatim>\<open>gnupg_process_terminate\<close> changes
  the process object, so the \<open>terminated\<close> flag and the cached exit status stay as they
  were; and the request does nothing and returns success when the process is already
  marked terminated or its native handle is the invalid-handle sentinel.
\<close>

theorem kill_leaves_process_unchanged:
  "fst (snd (process_vctl os p (GNUPG_PROCESS_KILL_WITH_EC c))) = p
   \<and> fst (snd (gnupg_process_terminate os p)) = p
   \<and> (terminated p \<or> hProcess p = INVALID_HANDLE_VALUE \<longrightarrow>
        process_vctl os p (GNUPG_PROCESS_KILL_WITH_EC c) = (GPG_ERR_NO_ERROR, p, No_output, []))"
  by (simp add: process_kill_result gnupg_process_terminate_def)

theorem kill_leaves_process_unchanged_witness:
  "process_vctl example_os (example_process\<lparr>terminated := True\<rparr>) (GNUPG_PROCESS_KILL_WITH_EC 9) =
     (GPG_ERR_NO_ERROR, example_process\<lparr>terminated := True\<rparr>, No_output, [])
   \<and> process_vctl example_os (example_process\<lparr>hProcess := INVALID_HANDLE_VALUE\<rparr>)
        (GNUPG_PROCESS_KILL_WITH_EC 9) =
     (GPG_ERR_NO_ERROR, example_process\<lparr>hProcess := INVALID_HANDLE_VALUE\<rparr>, No_output, [])
   \<and> terminated (fst (snd (gnupg_process_terminate example_os example_process))) = False
   \<and> exitcode (fst (snd (gnupg_process_terminate example_os example_process))) = -1"
  using kill_leaves_process_unchanged [of example_os "example_process\<lparr>terminated := True\<rparr>" 9]
    kill_leaves_process_unchanged [of example_os "example_process\<lparr>hProcess := INVALID_HANDLE_VALUE\<rparr>" 9]
    kill_leaves_process_unchanged [of example_os example_process 1]
  by (simp add: example_process_def)

text \<open>
  Claim C6, as amended.  While \<open>terminated\<close> is false, the get-exit-code and get-exit-id
  requests return \<^verbatim>\<open>GPG_ERR_UNFINISHED\<close> and store no status (get-exit-id stores \<open>-1\<close>).
  Once \<open>terminated\<close> is true they return success with \<open>-1\<close> when the native handle is the
  sentinel, success with the native exit status when \<^verbatim>\<open>GetExitCodeProcess\<close> succeeds, and
  the system error code when \<^verbatim>\<open>GetExitCodeProcess\<close> fails.  The process object is never
  changed.
\<close>

theorem exit_status_query:
  "(\<not> terminated p \<longrightarrow>
      process_vctl os p GNUPG_PROCESS_GET_EXIT_CODE = (GPG_ERR_UNFINISHED, p, R_exitcode None, [])
    \<and> process_vctl os p GNUPG_PROCESS_GET_EXIT_ID = (GPG_ERR_UNFINISHED, p, R_exit_status (-1), []))
   \<and> (terminated p \<and> hProcess p = INVALID_HANDLE_VALUE \<longrightarrow>
      process_vctl os p GNUPG_PROCESS_GET_EXIT_CODE = (GPG_ERR_NO_ERROR, p, R_exitcode (Some (-1)), [])
    \<and> process_vctl os p GNUPG_PROCESS_GET_EXIT_ID = (GPG_ERR_NO_ERROR, p, R_exit_status (-1), []))
   \<and> (terminated p \<and> hProcess p \<noteq> INVALID_HANDLE_VALUE
        \<and> GetExitCodeProcess os (hProcess p) = Some s \<longrightarrow>
      process_vctl os p GNUPG_PROCESS_GET_EXIT_CODE =
        (GPG_ERR_NO_ERROR, p, R_exitcode (Some s), [Call_GetExitCodeProcess (hProcess p)])
    \<and> process_vctl os p GNUPG_PROCESS_GET_EXIT_ID =
        (GPG_ERR_NO_ERROR, p, R_exit_status (sint s), [Call_GetExitCodeProcess (hProcess p)]))
   \<and> (terminated p \<and> hProcess p \<noteq> INVALID_HANDLE_VALUE
        \<and> GetExitCodeProcess os (hProcess p) = None \<longrightarrow>
      process_vctl os p GNUPG_PROCESS_GET_EXIT_CODE =
        (GPG_ERR_SYSTEM (errno os), p, R_exitcode None, [Call_GetExitCodeProcess (hProcess p)])
    \<and> process_vctl os p GNUPG_PROCESS_GET_EXIT_ID =
        (GPG_ERR_SYSTEM (errno os), p, R_exit_status (-1), [Call_GetExitCodeProcess (hProcess p)]))"
  by (simp add: gpg_err_code_from_syserror_def)

theorem exit_status_query_witness:
  "process_vctl example_os example_process GNUPG_PROCESS_GET_EXIT_CODE =
     (GPG_ERR_UNFINISHED, example_process, R_exitcode None, [])
   \<and> process_vctl example_os (example_process\<lparr>terminated := True, hProcess := INVALID_HANDLE_VALUE\<rparr>)
        GNUPG_PROCESS_GET_EXIT_ID =
     (GPG_ERR_NO_ERROR, example_process\<lparr>terminated := True, hProcess := INVALID_HANDLE_VALUE\<rparr>,
      R_exit_status (-1), [])
   \<and> process_vctl (example_os\<lparr>GetExitCodeProcess := \<lambda>h. Some 3\<rparr>)
        (example_process\<lparr>terminated := True\<rparr>) GNUPG_PROCESS_GET_EXIT_ID =
     (GPG_ERR_NO_ERROR, example_process\<lparr>terminated := True\<rparr>, R_exit_status 3,
      [Call_GetExitCodeProcess 300])
   \<and> process_vctl (example_os\<lparr>GetExitCodeProcess := \<lambda>h. None\<rparr>)
        (example_process\<lparr>terminated := True\<rparr>) GNUPG_PROCESS_GET_EXIT_ID =
     (GPG_ERR_SYSTEM 12, example_process\<lparr>terminated := True\<rparr>, R_exit_status (-1),
      [Call_GetExitCodeProcess 300])"
  using exit_status_query [of example_process example_os 0]
    exit_status_query [of "example_process\<lparr>terminated := True, hProcess := INVALID_HANDLE_VALUE\<rparr>" example_os 0]
    exit_status_query [of "example_process\<lparr>terminated := True\<rparr>" "example_os\<lparr>GetExitCodeProcess := \<lambda>h. Some 3\<rparr>" 3]
    exit_status_query [of "example_process\<lparr>terminated := True\<rparr>" "example_os\<lparr>GetExitCodeProcess := \<lambda>h. None\<rparr>" 0]
  by (simp add: example_process_def example_os_def INVALID_HANDLE_VALUE_def)

text \<open>
  Claim C6 as stated fails for a terminated process whose exit code the system refuses to
  give: the request returns an error, not the exit status.
\<close>

theorem exit_status_query_fails_counterexample:
  "terminated (example_process\<lparr>terminated := True\<rparr>)
   \<and> process_vctl (example_os\<lparr>GetExitCodeProcess := \<lambda>h. None\<rparr>)
        (example_process\<lparr>terminated := True\<rparr>) GNUPG_PROCESS_GET_EXIT_CODE =
     (GPG_ERR_SYSTEM 12, example_process\<lparr>terminated := True\<rparr>, R_exitcode None,
      [Call_GetExitCodeProcess 300])
   \<and> GPG_ERR_SYSTEM 12 \<noteq> GPG_ERR_NO_ERROR"
  by (simp add: gpg_err_code_from_syserror_def example_process_def example_os_def
      INVALID_HANDLE_VALUE_def)

subsection \<open>Stream ends are handed over once\<close>

lemma get_fds_result:
  "gnupg_process_get_fds os p a b c =
     (GPG_ERR_NO_ERROR,
      p\<lparr>hd_in := (if a then INVALID_HANDLE_VALUE else hd_in p),
        hd_out := (if b then INVALID_HANDLE_VALUE else hd_out p),
        hd_err := (if c then INVALID_HANDLE_VALUE else hd_err p)\<rparr>,
      (if a then Some (open_osfhandle os (hd_in p) ''O_APPEND'') else None),
      (if b then Some (open_osfhandle os (hd_out p) ''O_RDONLY'') else None),
      (if c then Some (open_osfhandle os (hd_err p) ''O_RDONLY'') else None))"
  by (simp add: gnupg_process_get_fds_def Let_def)

lemma get_streams_result:
  "gnupg_process_get_streams os p nb a b c =
     (GPG_ERR_NO_ERROR,
      p\<lparr>hd_in := (if a then INVALID_HANDLE_VALUE else hd_in p),
        hd_out := (if b then INVALID_HANDLE_VALUE else hd_out p),
        hd_err := (if c then INVALID_HANDLE_VALUE else hd_err p)\<rparr>,
      (if a then Some (es_sysopen os (hd_in p) (if nb then ''w,nonblock'' else ''w'')) else None),
      (if b then Some (es_sysopen os (hd_out p) (if nb then ''r,nonblock'' else ''r'')) else None),
      (if c then Some (es_sysopen os (hd_err p) (if nb then ''r,nonblock'' else ''r'')) else None))"
  by (simp add: gnupg_process_get_streams_def Let_def)

lemma get_handles_result:
  "process_vctl os p (GNUPG_PROCESS_GET_HANDLES a b c) =
     (GPG_ERR_NO_ERROR,
      p\<lparr>hd_in := (if a then INVALID_HANDLE_VALUE else hd_in p),
        hd_out := (if b then INVALID_HANDLE_VALUE else hd_out p),
        hd_err := (if c then INVALID_HANDLE_VALUE else hd_err p)\<rparr>,
      R_handles (if a then Some (hd_in p) else None)
                (if b then Some (hd_out p) else None)
                (if c then Some (hd_err p) else None),
      [])"
  by (simp add: Let_def)

lemma handed_over_sentinel:
  "handed_over os p which p1 \<Longrightarrow> stream_end which p1 = INVALID_HANDLE_VALUE"
  unfolding handed_over_def get_fds_result get_streams_result get_handles_result
  by (cases which) (auto simp: pick_def stream_end_def)

text \<open>
  Claim C9.  After \<^verbatim>\<open>gnupg_process_get_fds\<close>, \<^verbatim>\<open>gnupg_process_get_streams\<close> or the
  get-handles request has handed a stream end to the caller, that field of the process
  object is the invalid-handle sentinel.  A second hand-off of the same stream end, through
  any of the three operations, is therefore given the sentinel: get-handles stores the
  sentinel itself, and the other two pass the sentinel to \<^verbatim>\<open>_open_osfhandle\<close> or to
  \<^verbatim>\<open>es_sysopen\<close>; the field stays the sentinel.
\<close>

theorem stream_end_handed_over_once:
  assumes "handed_over os p which p1" and "pick which a b c"
  shows "stream_end which p1 = INVALID_HANDLE_VALUE
       \<and> (case gnupg_process_get_fds os p1 a b c of
            (ec, p2, x, y, z) \<Rightarrow>
              pick which x y z =
                Some (open_osfhandle os INVALID_HANDLE_VALUE
                        (pick which ''O_APPEND'' ''O_RDONLY'' ''O_RDONLY''))
              \<and> stream_end which p2 = INVALID_HANDLE_VALUE)
       \<and> (case gnupg_process_get_streams os p1 nonblock a b c of
            (ec, p2, x, y, z) \<Rightarrow>
              pick which x y z =
                Some (es_sysopen os INVALID_HANDLE_VALUE
                        (pick which (if nonblock then ''w,nonblock'' else ''w'')
                                    (if nonblock then ''r,nonblock'' else ''r'')
                                    (if nonblock then ''r,nonblock'' else ''r'')))
              \<and> stream_end which p2 = INVALID_HANDLE_VALUE)
       \<and> (case process_vctl os p1 (GNUPG_PROCESS_GET_HANDLES a b c) of
            (ec, p2, out, evs) \<Rightarrow>
              (\<exists>x y z. out = R_handles x y z \<and> pick which x y z = Some INVALID_HANDLE_VALUE)
              \<and> stream_end which p2 = INVALID_HANDLE_VALUE)"
proof -
  have s: "stream_end which p1 = INVALID_HANDLE_VALUE"
    using assms(1) by (rule handed_over_sentinel)
  show ?thesis
    unfolding get_fds_result get_streams_result get_handles_result
    using s assms(2) by (cases which) (simp_all add: pick_def stream_end_def)
qed

theorem stream_end_handed_over_once_witness:
  "stream_end Std_output (fst (snd (gnupg_process_get_fds example_os example_process False True False)))
     = INVALID_HANDLE_VALUE
   \<and> fst (snd (snd (gnupg_process_get_fds example_os example_process False True False))) = None
   \<and> fst (snd (snd (snd (gnupg_process_get_fds example_os example_process False True False)))) = Some 3
   \<and> process_vctl example_os
        (fst (snd (gnupg_process_get_fds example_os example_process False True False)))
        (GNUPG_PROCESS_GET_HANDLES False True False) =
       (GPG_ERR_NO_ERROR,
        fst (snd (gnupg_process_get_fds example_os example_process False True False)),
        R_handles None (Some INVALID_HANDLE_VALUE) None, [])"
proof -
  let ?p1 = "fst (snd (gnupg_process_get_fds example_os example_process False True False))"
  have h: "handed_over example_os example_process Std_output ?p1"
    unfolding handed_over_def
    by (intro exI[of _ False] exI[of _ True] conjI disjI1) (simp_all add: pick_def)
  have a: "pick Std_output False True False" by (simp add: pick_def)
  from stream_end_handed_over_once [OF h a, of False]
  have s: "stream_end Std_output ?p1 = INVALID_HANDLE_VALUE" by simp
  then have "hd_out ?p1 = INVALID_HANDLE_VALUE" by (simp add: stream_end_def pick_def)
  then show ?thesis using s
    by (simp add: get_fds_result get_handles_result example_process_def example_os_def
        INVALID_HANDLE_VALUE_def)
qed

subsection \<open>Waiting for several processes\<close>

lemma reject_invalid_pids_fst: "fst (reject_invalid_pids i pids r) = (-1 \<in> set pids)"
  by (induction pids arbitrary: i r) (auto simp: Let_def)

lemma reject_invalid_pids_None: "snd (reject_invalid_pids i pids None) = None"
  by (induction pids arbitrary: i) (auto simp: Let_def)

lemma reject_invalid_pids_Some:
  "-1 \<notin> set pids \<Longrightarrow> i + length pids \<le> length a \<Longrightarrow>
   \<exists>a'. snd (reject_invalid_pids i pids (Some a)) = Some a' \<and> length a' = length a
      \<and> (\<forall>k<i. a' ! k = a ! k)
      \<and> (\<forall>j<length pids. a' ! (i + j) = -1)"
proof (induction pids arbitrary: i a)
  case Nil
  show ?case by simp
next
  case (Cons pid pids)
  have pid: "pid \<noteq> -1" and rest: "-1 \<notin> set pids" using Cons.prems(1) by auto
  have i: "i < length a" using Cons.prems(2) by simp
  have "Suc i + length pids \<le> length (a[i := -1])" using Cons.prems(2) by simp
  from Cons.IH [OF rest this] obtain a' where
    a': "snd (reject_invalid_pids (Suc i) pids (Some (a[i := -1]))) = Some a'"
      "length a' = length (a[i := -1])" "\<forall>k<Suc i. a' ! k = (a[i := -1]) ! k"
      "\<forall>j<length pids. a' ! (Suc i + j) = -1"
    by blast
  have step: "reject_invalid_pids i (pid # pids) (Some a) =
                reject_invalid_pids (Suc i) pids (Some (a[i := -1]))"
    using pid by (simp add: Let_def)
  have here: "a' ! i = -1" using a'(3) i by simp
  have below: "\<forall>k<i. a' ! k = a ! k" using a'(3) by simp
  have "\<forall>j<length (pid # pids). a' ! (i + j) = -1"
  proof (intro allI impI)
    fix j
    assume j: "j < length (pid # pids)"
    show "a' ! (i + j) = -1"
    proof (cases j)
      case 0
      then show ?thesis using here by simp
    next
      case (Suc j')
      then show ?thesis using j a'(4) by simp
    qed
  qed
  then show ?case using step a'(1,2) below by simp
qed

lemma record_exit_code_ec:
  "fst (record_exit_code os i (name, pid) (ec, r, evs)) =
     (if GetExitCodeProcess os pid = Some 0 then ec else GPG_ERR_GENERAL)"
  by (cases "GetExitCodeProcess os pid"; cases r) auto

lemma record_exit_code_None:
  "fst (snd (record_exit_code os i (name, pid) (ec, None, evs))) = None"
  by (cases "GetExitCodeProcess os pid") auto

lemma record_exit_code_Some:
  "i < length a \<Longrightarrow>
   \<exists>a1. fst (snd (record_exit_code os i (name, pid) (ec, Some a, evs))) = Some a1
       \<and> length a1 = length a
       \<and> (\<forall>k. k \<noteq> i \<longrightarrow> a1 ! k = a ! k)
       \<and> a1 ! i = (case GetExitCodeProcess os pid of Some s \<Rightarrow> sint s | None \<Rightarrow> a ! i)"
  by (cases "GetExitCodeProcess os pid") auto

lemma record_exit_code_events:
  "set evs \<subseteq> set (snd (snd (record_exit_code os i (name, pid) (ec, r, evs))))"
  by (cases "GetExitCodeProcess os pid"; cases r) auto

lemma record_exit_code_diagnostic:
  "GetExitCodeProcess os pid = Some s \<Longrightarrow> s \<noteq> 0 \<Longrightarrow>
   Log_error_running name (sint s) \<in> set (snd (snd (record_exit_code os i (name, pid) (ec, None, evs))))"
  by simp

lemma collect_exit_codes_ec:
  "fst (collect_exit_codes os i procs (ec, r, evs)) =
     (if \<forall>pid \<in> snd ` set procs. GetExitCodeProcess os pid = Some 0 then ec else GPG_ERR_GENERAL)"
proof (induction procs arbitrary: i ec r evs)
  case Nil
  show ?case by simp
next
  case (Cons x procs)
  obtain name pid where x: "x = (name, pid)" by (cases x)
  obtain ec1 r1 evs1 where acc: "record_exit_code os i (name, pid) (ec, r, evs) = (ec1, r1, evs1)"
    by (rule prod_cases3)
  have "ec1 = (if GetExitCodeProcess os pid = Some 0 then ec else GPG_ERR_GENERAL)"
    using record_exit_code_ec [of os i name pid ec r evs] acc by simp
  then show ?case using Cons.IH [of "Suc i" ec1 r1 evs1] x acc by simp
qed

lemma collect_exit_codes_array:
  "i + length procs \<le> length a \<Longrightarrow>
   \<exists>a'. fst (snd (collect_exit_codes os i procs (ec, Some a, evs))) = Some a'
      \<and> length a' = length a
      \<and> (\<forall>k<i. a' ! k = a ! k)
      \<and> (\<forall>j<length procs. a' ! (i + j) =
            (case GetExitCodeProcess os (snd (procs ! j)) of
               Some s \<Rightarrow> sint s | None \<Rightarrow> a ! (i + j)))"
proof (induction procs arbitrary: i a ec evs)
  case Nil
  show ?case by simp
next
  case (Cons x procs)
  obtain name pid where x: "x = (name, pid)" by (cases x)
  obtain ec1 r1 evs1 where acc: "record_exit_code os i (name, pid) (ec, Some a, evs) = (ec1, r1, evs1)"
    by (rule prod_cases3)
  have "i < length a" using Cons.prems by simp
  from record_exit_code_Some [OF this, of os name pid ec evs] acc obtain a1 where
    a1: "r1 = Some a1" "length a1 = length a" "\<forall>k. k \<noteq> i \<longrightarrow> a1 ! k = a ! k"
      "a1 ! i = (case GetExitCodeProcess os pid of Some s \<Rightarrow> sint s | None \<Rightarrow> a ! i)"
    by auto
  have step: "collect_exit_codes os i (x # procs) (ec, Some a, evs) =
       collect_exit_codes os (Suc i) procs (ec1, Some a1, evs1)"
    using x acc a1(1) by simp
  have "Suc i + length procs \<le> length a1" using Cons.prems a1(2) by simp
  from Cons.IH [OF this, of ec1 evs1] obtain a' where
    a': "fst (snd (collect_exit_codes os (Suc i) procs (ec1, Some a1, evs1))) = Some a'"
      "length a' = length a1" "\<forall>k<Suc i. a' ! k = a1 ! k"
      "\<forall>j<length procs. a' ! (Suc i + j) =
            (case GetExitCodeProcess os (snd (procs ! j)) of
               Some s \<Rightarrow> sint s | None \<Rightarrow> a1 ! (Suc i + j))"
    by blast
  have "\<forall>j<length (x # procs). a' ! (i + j) =
            (case GetExitCodeProcess os (snd ((x # procs) ! j)) of
               Some s \<Rightarrow> sint s | None \<Rightarrow> a ! (i + j))"
  proof (intro allI impI)
    fix j
    assume j: "j < length (x # procs)"
    show "a' ! (i + j) =
            (case GetExitCodeProcess os (snd ((x # procs) ! j)) of
               Some s \<Rightarrow> sint s | None \<Rightarrow> a ! (i + j))"
    proof (cases j)
      case 0
      have "a' ! i = a1 ! i" using a'(3) by simp
      then show ?thesis using 0 x a1(4) by (simp split: option.split)
    next
      case (Suc j')
      have "a1 ! (Suc i + j') = a ! (Suc i + j')" using a1(3) by simp
      then show ?thesis using Suc j a'(4) by (simp split: option.split)
    qed
  qed
  moreover have "\<forall>k<i. a' ! k = a ! k" using a'(3) a1(3) by simp
  ultimately show ?case using step a'(1,2) a1(2) by simp
qed

lemma collect_exit_codes_None:
  "fst (snd (collect_exit_codes os i procs (ec, None, evs))) = None"
proof (induction procs arbitrary: i ec evs)
  case Nil
  show ?case by simp
next
  case (Cons x procs)
  obtain name pid where x: "x = (name, pid)" by (cases x)
  obtain ec1 r1 evs1 where acc: "record_exit_code os i (name, pid) (ec, None, evs) = (ec1, r1, evs1)"
    by (rule prod_cases3)
  then have "r1 = None" using record_exit_code_None [of os i name pid ec evs] by simp
  then show ?case using x acc Cons.IH [of "Suc i" ec1 evs1] by simp
qed

lemma collect_exit_codes_events:
  "set evs \<subseteq> set (snd (snd (collect_exit_codes os i procs (ec, r, evs))))"
proof (induction procs arbitrary: i ec r evs)
  case Nil
  show ?case by simp
next
  case (Cons x procs)
  obtain name pid where x: "x = (name, pid)" by (cases x)
  obtain ec1 r1 evs1 where acc: "record_exit_code os i (name, pid) (ec, r, evs) = (ec1, r1, evs1)"
    by (rule prod_cases3)
  then have "set evs \<subseteq> set evs1" using record_exit_code_events [of evs os i name pid ec r] by simp
  then show ?case using x acc Cons.IH [of evs1 "Suc i" ec1 r1] by auto
qed

lemma collect_exit_codes_diagnostic:
  "(name, pid) \<in> set procs \<Longrightarrow> GetExitCodeProcess os pid = Some s \<Longrightarrow> s \<noteq> 0 \<Longrightarrow>
   Log_error_running name (sint s) \<in> set (snd (snd (collect_exit_codes os i procs (ec, None, evs))))"
proof (induction procs arbitrary: i ec evs)
  case Nil
  then show ?case by simp
next
  case (Cons x procs)
  obtain name' pid' where x: "x = (name', pid')" by (cases x)
  obtain ec1 r1 evs1 where acc: "record_exit_code os i (name', pid') (ec, None, evs) = (ec1, r1, evs1)"
    by (rule prod_cases3)
  then have r1: "r1 = None" using record_exit_code_None [of os i name' pid' ec evs] by simp
  show ?case
  proof (cases "x = (name, pid)")
    case True
    then have "Log_error_running name (sint s) \<in> set evs1"
      using record_exit_code_diagnostic [OF Cons.prems(2,3), where name = name and i = i and ec = ec and evs = evs] acc x by simp
    then show ?thesis
      using collect_exit_codes_events [of evs1 os "Suc i" procs ec1 r1] x acc by auto
  next
    case False
    then have "(name, pid) \<in> set procs" using Cons.prems by auto
    from Cons.IH [OF this Cons.prems(2,3), of "Suc i" ec1 evs1] show ?thesis
      using x acc r1 by simp
  qed
qed


text \<open>
  Claim C4, as amended.  When the array of handles cannot be allocated,
  \<^verbatim>\<open>gnupg_wait_processes\<close> returns the error for the system error, with no call to the
  system and the caller's array untouched.  Once it is allocated, a pid of \<open>-1\<close> anywhere
  in the list makes it return \<^verbatim>\<open>GPG_ERR_INV_VALUE\<close> without a single call to the system, so
  before any waiting.  After a successful joint wait: each entry of a supplied
  \<^verbatim>\<open>r_exitcodes\<close> array holds the exit status that \<^verbatim>\<open>GetExitCodeProcess\<close> reports for its
  process, and \<open>-1\<close> when that query fails; without the array, a diagnostic names each
  program whose reported exit status is not zero; and the result is success exactly when
  every query succeeds and reports 0, and the generic failure otherwise.
\<close>

theorem gnupg_wait_processes_result:
  assumes "length pgmnames = length pids"
    and "\<forall>a. r_exitcodes = Some a \<longrightarrow> length a = length pids"
  shows "(\<not> xtrycalloc os (length pids) \<longrightarrow>
            gnupg_wait_processes os pgmnames pids hang r_exitcodes =
              (gpg_err_code_from_syserror os, r_exitcodes, []))
       \<and> (xtrycalloc os (length pids) \<and> -1 \<in> set pids \<longrightarrow>
            fst (gnupg_wait_processes os pgmnames pids hang r_exitcodes) = GPG_ERR_INV_VALUE
          \<and> snd (snd (gnupg_wait_processes os pgmnames pids hang r_exitcodes)) = [])
       \<and> (xtrycalloc os (length pids) \<and> -1 \<notin> set pids
            \<and> WaitForMultipleObjects os pids hang = WAIT_OBJECT_0 \<longrightarrow>
            (\<exists>ec r evs.
               gnupg_wait_processes os pgmnames pids hang r_exitcodes = (ec, r, evs)
             \<and> (ec = GPG_ERR_NO_ERROR \<longleftrightarrow> (\<forall>pid\<in>set pids. GetExitCodeProcess os pid = Some 0))
             \<and> (ec = GPG_ERR_NO_ERROR \<or> ec = GPG_ERR_GENERAL)
             \<and> (\<forall>a. r_exitcodes = Some a \<longrightarrow>
                   (\<exists>a'. r = Some a' \<and> length a' = length pids
                      \<and> (\<forall>i<length pids. a' ! i =
                            (case GetExitCodeProcess os (pids ! i) of
                               Some s \<Rightarrow> sint s | None \<Rightarrow> -1))))
             \<and> (r_exitcodes = None \<longrightarrow>
                   (\<forall>i<length pids. \<forall>s. GetExitCodeProcess os (pids ! i) = Some s \<and> s \<noteq> 0
                      \<longrightarrow> Log_error_running (pgmnames ! i) (sint s) \<in> set evs))))"
    (is "?no_memory \<and> ?rejected \<and> ?waited")
proof -
  have no_memory: ?no_memory
    by (simp add: gnupg_wait_processes_def)
  have rejected: ?rejected
  proof (intro impI)
    assume a: "xtrycalloc os (length pids) \<and> -1 \<in> set pids"
    then have "fst (reject_invalid_pids 0 pids r_exitcodes)"
      by (simp add: reject_invalid_pids_fst)
    then obtain r where "reject_invalid_pids 0 pids r_exitcodes = (True, r)"
      by (cases "reject_invalid_pids 0 pids r_exitcodes") auto
    then show "fst (gnupg_wait_processes os pgmnames pids hang r_exitcodes) = GPG_ERR_INV_VALUE
          \<and> snd (snd (gnupg_wait_processes os pgmnames pids hang r_exitcodes)) = []"
      using a by (simp add: gnupg_wait_processes_def)
  qed
  have waited: ?waited
  proof (intro impI)
    assume a: "xtrycalloc os (length pids) \<and> -1 \<notin> set pids
                 \<and> WaitForMultipleObjects os pids hang = WAIT_OBJECT_0"
    let ?procs = "zip pgmnames pids"
    let ?evs0 = "[Call_WaitForMultipleObjects pids hang]"
    have valid: "-1 \<notin> set pids" using a by simp
    have "\<not> fst (reject_invalid_pids 0 pids r_exitcodes)"
      using a by (simp add: reject_invalid_pids_fst)
    then obtain r0 where r0: "reject_invalid_pids 0 pids r_exitcodes = (False, r0)"
      by (cases "reject_invalid_pids 0 pids r_exitcodes") auto
    have run: "gnupg_wait_processes os pgmnames pids hang r_exitcodes =
                 collect_exit_codes os 0 ?procs (GPG_ERR_NO_ERROR, r0, ?evs0)"
      using a r0 by (simp add: gnupg_wait_processes_def)
    obtain ec r evs where res:
      "collect_exit_codes os 0 ?procs (GPG_ERR_NO_ERROR, r0, ?evs0) = (ec, r, evs)"
      by (rule prod_cases3)
    have snd_procs: "snd ` set ?procs = set pids"
      using assms(1) by (simp add: zip_eq_conv [symmetric] map_snd_zip flip: set_map)
    have ec: "ec = (if \<forall>pid\<in>set pids. GetExitCodeProcess os pid = Some 0
                    then GPG_ERR_NO_ERROR else GPG_ERR_GENERAL)"
      using collect_exit_codes_ec [of os 0 ?procs GPG_ERR_NO_ERROR r0 ?evs0] res snd_procs by simp
    have arr: "\<forall>a. r_exitcodes = Some a \<longrightarrow>
                     (\<exists>a'. r = Some a' \<and> length a' = length pids
                        \<and> (\<forall>i<length pids. a' ! i =
                              (case GetExitCodeProcess os (pids ! i) of
                                 Some s \<Rightarrow> sint s | None \<Rightarrow> -1)))"
    proof (intro allI impI)
      fix a0
      assume s: "r_exitcodes = Some a0"
      then have l0: "length a0 = length pids" using assms(2) by simp
      then have "0 + length pids \<le> length a0" by simp
      from reject_invalid_pids_Some [OF valid this] r0 s obtain a1 where
        a1: "r0 = Some a1" "length a1 = length a0" "\<forall>j<length pids. a1 ! j = -1"
        by auto
      have "0 + length ?procs \<le> length a1" using a1(2) l0 assms(1) by simp
      from collect_exit_codes_array [OF this, of os GPG_ERR_NO_ERROR ?evs0] res a1(1)
      obtain a' where a': "r = Some a'" "length a' = length a1"
        "\<forall>j<length ?procs. a' ! (0 + j) =
              (case GetExitCodeProcess os (snd (?procs ! j)) of
                 Some s \<Rightarrow> sint s | None \<Rightarrow> a1 ! (0 + j))"
        by auto
      have "\<forall>i<length pids. a' ! i =
              (case GetExitCodeProcess os (pids ! i) of Some s \<Rightarrow> sint s | None \<Rightarrow> -1)"
      proof (intro allI impI)
        fix i
        assume i: "i < length pids"
        then have "a' ! i = (case GetExitCodeProcess os (pids ! i) of
                               Some s \<Rightarrow> sint s | None \<Rightarrow> a1 ! i)"
          using a'(3) assms(1) by (simp split: option.split)
        then show "a' ! i = (case GetExitCodeProcess os (pids ! i) of
                               Some s \<Rightarrow> sint s | None \<Rightarrow> -1)"
          using a1(3) i by (simp split: option.split)
      qed
      then show "\<exists>a'. r = Some a' \<and> length a' = length pids
                        \<and> (\<forall>i<length pids. a' ! i =
                              (case GetExitCodeProcess os (pids ! i) of
                                 Some s \<Rightarrow> sint s | None \<Rightarrow> -1))"
        using a'(1,2) a1(2) l0 by simp
    qed
    have diag: "r_exitcodes = None \<longrightarrow>
                     (\<forall>i<length pids. \<forall>s. GetExitCodeProcess os (pids ! i) = Some s \<and> s \<noteq> 0
                        \<longrightarrow> Log_error_running (pgmnames ! i) (sint s) \<in> set evs)"
    proof (intro allI impI)
      fix i s
      assume n: "r_exitcodes = None" and i: "i < length pids"
        and q: "GetExitCodeProcess os (pids ! i) = Some s \<and> s \<noteq> 0"
      have r0n: "r0 = None" using reject_invalid_pids_None [of 0 pids] r0 n by simp
      have "(pgmnames ! i, pids ! i) \<in> set ?procs"
        using i assms(1) by (metis length_zip min.idem nth_mem nth_zip)
      from collect_exit_codes_diagnostic [OF this, of os s 0 GPG_ERR_NO_ERROR ?evs0] q res r0n
      show "Log_error_running (pgmnames ! i) (sint s) \<in> set evs" by simp
    qed
    show "\<exists>ec r evs.
                 gnupg_wait_processes os pgmnames pids hang r_exitcodes = (ec, r, evs)
               \<and> (ec = GPG_ERR_NO_ERROR \<longleftrightarrow> (\<forall>pid\<in>set pids. GetExitCodeProcess os pid = Some 0))
               \<and> (ec = GPG_ERR_NO_ERROR \<or> ec = GPG_ERR_GENERAL)
               \<and> (\<forall>a. r_exitcodes = Some a \<longrightarrow>
                     (\<exists>a'. r = Some a' \<and> length a' = length pids
                        \<and> (\<forall>i<length pids. a' ! i =
                              (case GetExitCodeProcess os (pids ! i) of
                                 Some s \<Rightarrow> sint s | None \<Rightarrow> -1))))
               \<and> (r_exitcodes = None \<longrightarrow>
                     (\<forall>i<length pids. \<forall>s. GetExitCodeProcess os (pids ! i) = Some s \<and> s \<noteq> 0
                        \<longrightarrow> Log_error_running (pgmnames ! i) (sint s) \<in> set evs))"
      using run res ec arr diag by (intro exI [of _ ec] exI [of _ r] exI [of _ evs]) simp
  qed
  show ?thesis
    by (intro conjI) (rule no_memory, rule rejected, rule waited)
qed

theorem gnupg_wait_processes_result_witness:
  "gnupg_wait_processes (example_os\<lparr>GetExitCodeProcess := \<lambda>h. if h = 301 then Some 7 else Some 0\<rparr>)
      [''gpg'', ''gpgsm'', ''dirmngr''] [300, 301, 302] True (Some [9, 9, 9]) =
     (GPG_ERR_GENERAL, Some [0, 7, 0],
      [Call_WaitForMultipleObjects [300, 301, 302] True, Call_GetExitCodeProcess 300,
       Call_GetExitCodeProcess 301, Call_GetExitCodeProcess 302])
   \<and> gnupg_wait_processes (example_os\<lparr>GetExitCodeProcess := \<lambda>h. if h = 301 then Some 7 else Some 0\<rparr>)
      [''gpg'', ''gpgsm'', ''dirmngr''] [300, 301, 302] True None =
     (GPG_ERR_GENERAL, None,
      [Call_WaitForMultipleObjects [300, 301, 302] True, Call_GetExitCodeProcess 300,
       Call_GetExitCodeProcess 301, Log_error_running ''gpgsm'' 7, Call_GetExitCodeProcess 302])
   \<and> gnupg_wait_processes example_os [''gpg'', ''gpgsm''] [300, 301] True (Some [9, 9]) =
     (GPG_ERR_NO_ERROR, Some [0, 0],
      [Call_WaitForMultipleObjects [300, 301] True, Call_GetExitCodeProcess 300,
       Call_GetExitCodeProcess 301])
   \<and> gnupg_wait_processes example_os [''gpg'', ''gpgsm''] [300, -1] True (Some [9, 9]) =
     (GPG_ERR_INV_VALUE, Some [-1, -1], [])
   \<and> gnupg_wait_processes (example_os\<lparr>xtrycalloc := \<lambda>n. False\<rparr>)
      [''gpg'', ''gpgsm''] [300, 301] True (Some [9, 9]) =
     (GPG_ERR_SYSTEM 12, Some [9, 9], [])"
proof -
  let ?os = "example_os\<lparr>GetExitCodeProcess := \<lambda>h. if h = 301 then Some 7 else Some 0\<rparr>"
  let ?poor = "example_os\<lparr>xtrycalloc := \<lambda>n. False\<rparr>"
  note t1 = gnupg_wait_processes_result
    [of "[''gpg'', ''gpgsm'', ''dirmngr'']" "[300, 301, 302]" "Some [9, 9, 9]" ?os True]
  note t2 = gnupg_wait_processes_result
    [of "[''gpg'', ''gpgsm'']" "[300, -1]" "Some [9, 9]" example_os True]
  note t3 = gnupg_wait_processes_result
    [of "[''gpg'', ''gpgsm'']" "[300, 301]" "Some [9, 9]" ?poor True]
  have e1: "fst (gnupg_wait_processes example_os [''gpg'', ''gpgsm''] [300, -1] True (Some [9, 9]))
              = GPG_ERR_INV_VALUE"
    using t2 by (simp add: example_os_def)
  have e2: "fst (gnupg_wait_processes ?os [''gpg'', ''gpgsm'', ''dirmngr''] [300, 301, 302] True
              (Some [9, 9, 9])) \<noteq> GPG_ERR_NO_ERROR"
    using t1 by (auto simp: example_os_def)
  have e3: "gnupg_wait_processes ?poor [''gpg'', ''gpgsm''] [300, 301] True (Some [9, 9]) =
              (gpg_err_code_from_syserror ?poor, Some [9, 9], [])"
    using t3 by (simp add: example_os_def)
  show ?thesis using e1 e2 e3
    by (simp add: gnupg_wait_processes_def example_os_def Let_def gpg_err_code_from_syserror_def)
qed

text \<open>
  Claim C4 as stated fails in two ways.  When the array of handles cannot be allocated, a
  list holding the pid \<open>-1\<close> is answered with the error for the system error, not with
  \<^verbatim>\<open>GPG_ERR_INV_VALUE\<close>.  And when, after a successful joint wait, the exit status of the
  second of two processes cannot be read while the first exited with status 0, the entry
  of the second keeps the \<open>-1\<close> of the first loop, which is no exit status of the process,
  and the result is the generic failure although no exit status is known to be non-zero.
\<close>

theorem gnupg_wait_processes_counterexample:
  "gnupg_wait_processes (example_os\<lparr>xtrycalloc := \<lambda>n. False\<rparr>)
      [''gpg'', ''gpgsm''] [300, -1] True (Some [9, 9]) =
     (GPG_ERR_SYSTEM 12, Some [9, 9], [])
   \<and> gnupg_wait_processes (example_os\<lparr>GetExitCodeProcess := \<lambda>h. if h = 301 then None else Some 0\<rparr>)
      [''gpg'', ''gpgsm''] [300, 301] True (Some [9, 9]) =
     (GPG_ERR_GENERAL, Some [0, -1],
      [Call_WaitForMultipleObjects [300, 301] True, Call_GetExitCodeProcess 300,
       Call_GetExitCodeProcess 301, Log_exit_code_failed 301])"
  by (simp add: gnupg_wait_processes_def example_os_def Let_def gpg_err_code_from_syserror_def)

subsection \<open>Launching a process\<close>

lemma example_cmdline:
  "build_w32_commandline os ''gpg'' [''--version''] =
     (if \<not> xtrymalloc os 19 then Error (GPG_ERR_SYSTEM (errno os))
      else Cmdline (map Some ''gpg --version'' @ Some NUL # replicate 5 None))"
proof -
  have b: "cmdline_bytes ''gpg'' [''--version''] = 19"
    by (simp add: cmdline_bytes_def token_bytes_def dquote_def)
  then have u: "unat (cmdline_size ''gpg'' [''--version'']) = 19"
    using unat_cmdline_size [of "''gpg''" "[''--version'']"] by simp
  have r: "render_cmdline ''gpg'' [''--version''] = ''gpg --version''"
    by (simp add: render_cmdline_def render_token_def needs_quoting_def special_def space_def)
  show ?thesis
    unfolding build_w32_commandline_characterisation u r
    by (simp add: gpg_err_code_from_syserror_def numeral_eq_Suc)
qed

lemma example_c_string:
  "c_string (map Some ''gpg --version'' @ Some NUL # replicate 5 None) = Some ''gpg --version''"
  by (rule c_string_terminated) (simp add: NUL_def)

lemma spawn_no_pipe_requested:
  "spawn_stdin_pipe os nb False v = (None, v)"
  "spawn_stdout_pipe os nb False v = (None, v)"
  "spawn_stderr_pipe os nb False v = (None, v)"
  by (simp_all add: spawn_stdin_pipe_def spawn_stdout_pipe_def spawn_stderr_pipe_def)

lemma spawn_stdin_pipe_made:
  assumes "CreatePipe os Std_input = Some (r, w)" and "SetHandleInformation os w"
    and "es_sysopen os w (if nb then ''w,nonblock'' else ''w'') = Some fp"
  shows "spawn_stdin_pipe os nb True spawn_vars_init =
     (None, spawn_vars_init\<lparr>inpipe := (r, w), infp := Some fp,
                             live := [Kernel_handle r, Kernel_handle w, Stream fp]\<rparr>)"
  using assms
  by (simp add: spawn_stdin_pipe_def create_inheritable_pipe_def sysopen_def spawn_vars_init_def
      INHERIT_READ_def INHERIT_WRITE_def)

lemma spawn_null_handles_init:
  "spawn_null_handles os fl spawn_vars_init =
     spawn_vars_init
       \<lparr>nullhd0 := no_pipe_handle os fl GNUPG_SPAWN_KEEP_STDIN Std_input,
        nullhd1 := no_pipe_handle os fl GNUPG_SPAWN_KEEP_STDOUT Std_output,
        nullhd2 := no_pipe_handle os fl GNUPG_SPAWN_KEEP_STDOUT Std_error,
        live := no_pipe_opened os fl GNUPG_SPAWN_KEEP_STDIN Std_input
                @ no_pipe_opened os fl GNUPG_SPAWN_KEEP_STDOUT Std_output
                @ no_pipe_opened os fl GNUPG_SPAWN_KEEP_STDOUT Std_error\<rparr>"
  by (simp add: spawn_null_handles_def spawn_vars_init_def w32_open_null_def
      no_pipe_handle_def no_pipe_opened_def Let_def)

lemma spawn_startupinfo_no_pipes:
  "spawn_startupinfo (spawn_null_handles os fl spawn_vars_init) = no_pipe_startupinfo os fl"
  unfolding spawn_null_handles_init
  by (simp add: spawn_startupinfo_def spawn_vars_init_def no_pipe_startupinfo_def)

lemma spawn_unwind_no_pipes:
  "spawn_unwind (spawn_null_handles os fl spawn_vars_init) =
     no_pipe_opened os fl GNUPG_SPAWN_KEEP_STDIN Std_input
       @ no_pipe_opened os fl GNUPG_SPAWN_KEEP_STDOUT Std_output
       @ no_pipe_opened os fl GNUPG_SPAWN_KEEP_STDOUT Std_error"
  unfolding spawn_null_handles_init
  by (simp add: spawn_unwind_def spawn_vars_init_def fclose_or_close_def close_if_valid_def)

lemma gnupg_spawn_process_no_pipes_failure:
  assumes "build_w32_commandline os pgm argv = Cmdline cmdline"
    and "c_string cmdline = Some line"
    and "\<not> utf8_to_wchar os pgm \<or> \<not> utf8_to_wchar os line
         \<or> CreateProcessW os pgm line (no_pipe_startupinfo os fl) (fl AND GNUPG_SPAWN_DETACHED \<noteq> 0) = None"
  shows "gnupg_spawn_process os pgm argv fl False False False =
     (Spawn_error GPG_ERR_GENERAL,
      no_pipe_opened os fl GNUPG_SPAWN_KEEP_STDIN Std_input
        @ no_pipe_opened os fl GNUPG_SPAWN_KEEP_STDOUT Std_output
        @ no_pipe_opened os fl GNUPG_SPAWN_KEEP_STDOUT Std_error,
      Some (no_pipe_startupinfo os fl))"
  using assms
  unfolding gnupg_spawn_process_def spawn_no_pipe_requested Let_def
  by (auto simp: spawn_startupinfo_no_pipes spawn_unwind_no_pipes)

lemma gnupg_spawn_process_no_pipes_startupinfo:
  assumes "build_w32_commandline os pgm argv = Cmdline cmdline"
    and "c_string cmdline = Some line"
  shows "snd (snd (gnupg_spawn_process os pgm argv fl False False False)) =
           Some (no_pipe_startupinfo os fl)"
  using assms
  unfolding gnupg_spawn_process_def spawn_no_pipe_requested Let_def
  by (auto simp: spawn_startupinfo_no_pipes split: option.splits)

lemma gnupg_spawn_process_cmdline_failure:
  assumes "CreatePipe os Std_input = Some (r, w)" and "SetHandleInformation os w"
    and "es_sysopen os w (if fl AND GNUPG_SPAWN_NONBLOCK \<noteq> 0 then ''w,nonblock'' else ''w'') = Some fp"
    and "build_w32_commandline os pgm argv = Error e"
  shows "gnupg_spawn_process os pgm argv fl True False False =
     (Spawn_error e, [Kernel_handle r, Kernel_handle w, Stream fp], None)"
  using assms(4)
  unfolding gnupg_spawn_process_def spawn_no_pipe_requested Let_def
    spawn_stdin_pipe_made [OF assms(1,2,3)]
  by simp

text \<open>
  Claim C3 says that every pipe handle, stream and null-device handle created by a failing
  \<^verbatim>\<open>gnupg_spawn_process\<close> is closed before it returns.  The code returns with resources
  still open: when \<^verbatim>\<open>build_w32_commandline\<close> fails after the pipe for standard input was
  made, both ends of the pipe and the stream on its write end stay open (line 559 returns
  at once); and when \<^verbatim>\<open>CreateProcessW\<close> fails, the three handles opened on the null device
  stay open (lines 612--629 close pipes and streams only).
\<close>

theorem gnupg_spawn_process_leaks_on_error:
  "gnupg_spawn_process (example_os\<lparr>xtrymalloc := \<lambda>n. False\<rparr>) ''gpg'' [''--version''] 0
       True False False =
     (Spawn_error (GPG_ERR_SYSTEM 12),
      [Kernel_handle 100, Kernel_handle 101, Stream (Estream 101 ''w'')], None)
   \<and> gnupg_spawn_process (example_os\<lparr>CreateProcessW := \<lambda>pgm line si detached. None\<rparr>)
       ''gpg'' [''--version''] 0 False False False =
     (Spawn_error GPG_ERR_GENERAL,
      [Kernel_handle 200, Kernel_handle 201, Kernel_handle 202],
      Some \<lparr>hStdInput = 200, hStdOutput = 201, hStdError = 202\<rparr>)"
proof
  let ?os = "example_os\<lparr>xtrymalloc := \<lambda>n. False\<rparr>"
  have p: "CreatePipe ?os Std_input = Some (100, 101)" "SetHandleInformation ?os 101"
    "es_sysopen ?os 101 (if (0 :: 32 word) AND GNUPG_SPAWN_NONBLOCK \<noteq> 0 then ''w,nonblock'' else ''w'')
       = Some (Estream 101 ''w'')"
    by (simp_all add: example_os_def)
  have b: "build_w32_commandline ?os ''gpg'' [''--version''] = Error (GPG_ERR_SYSTEM 12)"
    by (simp add: example_cmdline example_os_def)
  show "gnupg_spawn_process ?os ''gpg'' [''--version''] 0 True False False =
     (Spawn_error (GPG_ERR_SYSTEM 12),
      [Kernel_handle 100, Kernel_handle 101, Stream (Estream 101 ''w'')], None)"
    by (rule gnupg_spawn_process_cmdline_failure [OF p b])
next
  let ?os = "example_os\<lparr>CreateProcessW := \<lambda>pgm line si detached. None\<rparr>"
  have b: "build_w32_commandline ?os ''gpg'' [''--version''] =
             Cmdline (map Some ''gpg --version'' @ Some NUL # replicate 5 None)"
    by (simp add: example_cmdline example_os_def)
  have c: "\<not> utf8_to_wchar ?os ''gpg'' \<or> \<not> utf8_to_wchar ?os ''gpg --version''
         \<or> CreateProcessW ?os ''gpg'' ''gpg --version'' (no_pipe_startupinfo ?os 0)
              ((0 :: 32 word) AND GNUPG_SPAWN_DETACHED \<noteq> 0) = None"
    by (simp add: example_os_def)
  have o: "no_pipe_opened ?os 0 GNUPG_SPAWN_KEEP_STDIN Std_input = [Kernel_handle 200]"
    "no_pipe_opened ?os 0 GNUPG_SPAWN_KEEP_STDOUT Std_output = [Kernel_handle 201]"
    "no_pipe_opened ?os 0 GNUPG_SPAWN_KEEP_STDOUT Std_error = [Kernel_handle 202]"
    by (simp_all add: no_pipe_opened_def example_os_def INVALID_HANDLE_VALUE_def)
  have s: "no_pipe_startupinfo ?os 0 = \<lparr>hStdInput = 200, hStdOutput = 201, hStdError = 202\<rparr>"
    by (simp add: no_pipe_startupinfo_def no_pipe_handle_def example_os_def)
  show "gnupg_spawn_process ?os ''gpg'' [''--version''] 0 False False False =
     (Spawn_error GPG_ERR_GENERAL,
      [Kernel_handle 200, Kernel_handle 201, Kernel_handle 202],
      Some \<lparr>hStdInput = 200, hStdOutput = 201, hStdError = 202\<rparr>)"
    using gnupg_spawn_process_no_pipes_failure [OF b example_c_string c] unfolding o s by simp
qed

text \<open>
  Claim C7 says that a standard stream without a pipe is given the parent's handle when
  its own KEEP flag is set and the null device otherwise.  For standard error the code
  tests \<^verbatim>\<open>GNUPG_SPAWN_KEEP_STDOUT\<close>: with only \<^verbatim>\<open>GNUPG_SPAWN_KEEP_STDERR\<close> set the child's
  standard error is the null device (202, not the parent's 12), and with only
  \<^verbatim>\<open>GNUPG_SPAWN_KEEP_STDOUT\<close> set it is the parent's standard error.
\<close>

theorem gnupg_spawn_process_stderr_follows_keep_stdout:
  "snd (snd (gnupg_spawn_process example_os ''gpg'' [''--version''] GNUPG_SPAWN_KEEP_STDERR
       False False False)) =
     Some \<lparr>hStdInput = 200, hStdOutput = 201, hStdError = 202\<rparr>
   \<and> snd (snd (gnupg_spawn_process example_os ''gpg'' [''--version''] GNUPG_SPAWN_KEEP_STDOUT
       False False False)) =
     Some \<lparr>hStdInput = 200, hStdOutput = 11, hStdError = 12\<rparr>
   \<and> GetStdHandle example_os Std_error = 12
   \<and> CreateFileW_nul example_os Std_error = 202"
proof -
  have b: "build_w32_commandline example_os ''gpg'' [''--version''] =
             Cmdline (map Some ''gpg --version'' @ Some NUL # replicate 5 None)"
    by (simp add: example_cmdline example_os_def)
  have s1: "no_pipe_startupinfo example_os GNUPG_SPAWN_KEEP_STDERR =
              \<lparr>hStdInput = 200, hStdOutput = 201, hStdError = 202\<rparr>"
    by (simp add: no_pipe_startupinfo_def no_pipe_handle_def example_os_def
        GNUPG_SPAWN_KEEP_STDIN_def GNUPG_SPAWN_KEEP_STDOUT_def GNUPG_SPAWN_KEEP_STDERR_def)
  have s2: "no_pipe_startupinfo example_os GNUPG_SPAWN_KEEP_STDOUT =
              \<lparr>hStdInput = 200, hStdOutput = 11, hStdError = 12\<rparr>"
    by (simp add: no_pipe_startupinfo_def no_pipe_handle_def example_os_def
        GNUPG_SPAWN_KEEP_STDIN_def GNUPG_SPAWN_KEEP_STDOUT_def GNUPG_SPAWN_KEEP_STDERR_def)
  have e: "GetStdHandle example_os Std_error = 12" "CreateFileW_nul example_os Std_error = 202"
    by (simp_all add: example_os_def)
  show ?thesis
    using gnupg_spawn_process_no_pipes_startupinfo [OF b example_c_string] s1 s2 e by simp
qed

end
